theory Spec2Isabelle
  imports Complex_Main "HOL-Library.Word"
begin

section \<open>JavaScript values\<close>

text \<open>
  The server is the file \<^verbatim>\<open>index.js\<close>.  A JavaScript string is a sequence of UTF-16
  code units; \<^verbatim>\<open>substring\<close>, \<^verbatim>\<open>slice\<close> and the regular expression of the
  download handler all count and match code units, so strings are lists of 16-bit words.
  \<open>lit\<close> turns an ASCII literal of the source into such a list.
\<close>

type_synonym jsstring = "16 word list"

definition lit :: "string \<Rightarrow> jsstring" where
  "lit s = map (\<lambda>c. of_nat (of_char c)) s"

text \<open>
  A JavaScript number is a double.  Every finite double is a rational, and
  \<^verbatim>\<open>Math.floor\<close> and the comparison with \<^verbatim>\<open>3600\<close> are exact on doubles, so the
  finite numbers are modelled as rationals (more values than there are doubles; a
  statement for all rationals holds for all doubles).
\<close>

datatype jsnum = Fin rat | NaN | PosInf | NegInf

datatype jsval =
    JUndefined
  | JNull
  | JBool bool
  | JNumber jsnum
  | JString jsstring
  | JArray "jsval list"
  | JObject "(jsstring \<times> jsval) list"

text \<open>The values thrown in the server: \<^verbatim>\<open>Error\<close> objects with a name and a message.\<close>

datatype err_kind = PlainError | SyntaxError | TypeError | URIError

datatype js_error = Thrown err_kind jsstring

fun kind_name :: "err_kind \<Rightarrow> jsstring" where
  "kind_name PlainError = lit ''Error''"
| "kind_name SyntaxError = lit ''SyntaxError''"
| "kind_name TypeError = lit ''TypeError''"
| "kind_name URIError = lit ''URIError''"

text \<open>\<^verbatim>\<open>String(err)\<close>: the name, then the message after a colon when there is one.\<close>

fun String_of_error :: "js_error \<Rightarrow> jsstring" where
  "String_of_error (Thrown k msg) =
     (if msg = [] then kind_name k else kind_name k @ lit '': '' @ msg)"

text \<open>Truthiness, as \<^verbatim>\<open>||\<close>, \<^verbatim>\<open>!\<close> and \<^verbatim>\<open>&&\<close> test it.\<close>

fun truthy :: "jsval \<Rightarrow> bool" where
  "truthy JUndefined = False"
| "truthy JNull = False"
| "truthy (JBool b) = b"
| "truthy (JNumber (Fin q)) = (q \<noteq> 0)"
| "truthy (JNumber NaN) = False"
| "truthy (JNumber PosInf) = True"
| "truthy (JNumber NegInf) = True"
| "truthy (JString s) = (s \<noteq> [])"
| "truthy (JArray xs) = True"
| "truthy (JObject kvs) = True"

definition js_or :: "jsval \<Rightarrow> jsval \<Rightarrow> jsval" where
  "js_or a b = (if truthy a then a else b)"

text \<open>
  Reading a property, for the two names the download handler reads
  (\<^verbatim>\<open>duration\<close> and \<^verbatim>\<open>title\<close>): on \<^verbatim>\<open>null\<close> and \<^verbatim>\<open>undefined\<close> it throws a
  TypeError, on an object it gives the value stored under the key (the last one, when
  the JSON text repeated the key) or \<^verbatim>\<open>undefined\<close>, and a boolean, number, string or
  array has no property of either name.
\<close>

fun get_prop :: "jsval \<Rightarrow> jsstring \<Rightarrow> js_error + jsval" where
  "get_prop JUndefined k = Inl (Thrown TypeError (lit ''Cannot read properties of undefined''))"
| "get_prop JNull k = Inl (Thrown TypeError (lit ''Cannot read properties of null''))"
| "get_prop (JObject kvs) k =
     Inr (case map_of (rev kvs) k of None \<Rightarrow> JUndefined | Some v \<Rightarrow> v)"
| "get_prop v k = Inr JUndefined"

section \<open>The runtime\<close>

text \<open>
  What the server takes from Node and its libraries and does not compute itself is a
  parameter of the model:
  \<^item> \<^verbatim>\<open>JSON.parse\<close>, which returns a value or throws a SyntaxError;
  \<^item> the conversion to a number of a value that is not a number, a boolean,
    \<^verbatim>\<open>null\<close> or \<^verbatim>\<open>undefined\<close> (a string, an array, an object);
  \<^item> whether the response object has a \<^verbatim>\<open>flushHeaders\<close> method (the source calls
    it as \<^verbatim>\<open>res.flushHeaders?.()\<close>);
  \<^item> whether the value returned by the transcoder command's \<^verbatim>\<open>pipe\<close> has a
    \<^verbatim>\<open>kill\<close> method (the source tests \<^verbatim>\<open>ffmpegProc.kill\<close> before it calls it);
  \<^item> the environment variable \<^verbatim>\<open>NODE_ENV\<close>.
\<close>

record runtime =
  JSON_parse :: "jsstring \<Rightarrow> js_error + jsval"
  ToNumber_other :: "jsval \<Rightarrow> jsnum"
  flushHeaders_defined :: bool
  pipe_result_has_kill :: bool
  NODE_ENV :: "jsstring option"

fun ToNumber :: "runtime \<Rightarrow> jsval \<Rightarrow> jsnum" where
  "ToNumber rt (JNumber n) = n"
| "ToNumber rt JUndefined = NaN"
| "ToNumber rt JNull = Fin 0"
| "ToNumber rt (JBool b) = Fin (if b then 1 else 0)"
| "ToNumber rt v = ToNumber_other rt v"

fun Math_floor :: "jsnum \<Rightarrow> jsnum" where
  "Math_floor (Fin q) = Fin (of_int \<lfloor>q\<rfloor>)"
| "Math_floor n = n"

text \<open>The comparison \<^verbatim>\<open>a > b\<close> on numbers: false as soon as one side is NaN.\<close>

fun js_gt :: "jsnum \<Rightarrow> jsnum \<Rightarrow> bool" where
  "js_gt (Fin a) (Fin b) = (b < a)"
| "js_gt NaN _ = False"
| "js_gt _ NaN = False"
| "js_gt PosInf PosInf = False"
| "js_gt PosInf _ = True"
| "js_gt NegInf _ = False"
| "js_gt (Fin a) PosInf = False"
| "js_gt (Fin a) NegInf = True"

section \<open>The file name of a download\<close>

text \<open>
  \<^verbatim>\<open>(meta.title || 'audio').replace(/[^\w\s.-]/gi, '').substring(0, 60)\<close>.
  Without the \<^verbatim>\<open>u\<close> flag, \<^verbatim>\<open>\w\<close> is \<^verbatim>\<open>[A-Za-z0-9_]\<close> also under \<^verbatim>\<open>i\<close>,
  and \<^verbatim>\<open>\s\<close> is the white space and the line terminators of the language.
\<close>

definition is_word_char :: "16 word \<Rightarrow> bool" where
  "is_word_char c \<longleftrightarrow>
     (0x30 \<le> c \<and> c \<le> 0x39) \<or> (0x41 \<le> c \<and> c \<le> 0x5A) \<or> c = 0x5F \<or>
     (0x61 \<le> c \<and> c \<le> 0x7A)"

definition is_space_char :: "16 word \<Rightarrow> bool" where
  "is_space_char c \<longleftrightarrow>
     (0x09 \<le> c \<and> c \<le> 0x0D) \<or> c = 0x20 \<or> c = 0xA0 \<or> c = 0x1680 \<or>
     (0x2000 \<le> c \<and> c \<le> 0x200A) \<or> c = 0x2028 \<or> c = 0x2029 \<or> c = 0x202F \<or>
     c = 0x205F \<or> c = 0x3000 \<or> c = 0xFEFF"

text \<open>A code unit that the character class \<^verbatim>\<open>[^\w\s.-]\<close> does not match stays.\<close>

definition kept :: "16 word \<Rightarrow> bool" where
  "kept c \<longleftrightarrow> is_word_char c \<or> is_space_char c \<or> c = 0x2E \<or> c = 0x2D"

definition sanitize :: "jsstring \<Rightarrow> jsstring" where
  "sanitize s = take 60 (filter kept s)"

text \<open>
  \<open>safeTitle\<close> takes the value of \<^verbatim>\<open>meta.title\<close>.  A truthy title that is not a
  string has no \<^verbatim>\<open>replace\<close> method: the call throws a TypeError.
\<close>

definition safeTitle :: "jsval \<Rightarrow> js_error + jsstring" where
  "safeTitle title =
     (case js_or title (JString (lit ''audio'')) of
        JString s \<Rightarrow> Inr (sanitize s)
      | _ \<Rightarrow> Inl (Thrown TypeError (lit ''replace is not a function'')))"

definition filename_of :: "jsval \<Rightarrow> js_error + jsstring" where
  "filename_of title =
     (case safeTitle title of Inl e \<Rightarrow> Inl e | Inr t \<Rightarrow> Inr (t @ lit ''.mp3''))"

text \<open>The allow-list \<^verbatim>\<open>[A-Za-z0-9 ._-]\<close>, as a predicate on code units.\<close>

definition in_allow_list :: "16 word \<Rightarrow> bool" where
  "in_allow_list c \<longleftrightarrow>
     (0x30 \<le> c \<and> c \<le> 0x39) \<or> (0x41 \<le> c \<and> c \<le> 0x5A) \<or> (0x61 \<le> c \<and> c \<le> 0x7A) \<or>
     c = 0x20 \<or> c = 0x2E \<or> c = 0x5F \<or> c = 0x2D"

text \<open>
  \<^verbatim>\<open>encodeURIComponent\<close>: the letters, the digits and \<^verbatim>\<open>-_.!~*'()\<close> stay, every
  other code point is written as the percent-escaped bytes of its UTF-8 form, and a
  surrogate without its partner throws a URIError.
\<close>

definition uri_unreserved :: "16 word \<Rightarrow> bool" where
  "uri_unreserved c \<longleftrightarrow>
     (0x30 \<le> c \<and> c \<le> 0x39) \<or> (0x41 \<le> c \<and> c \<le> 0x5A) \<or> (0x61 \<le> c \<and> c \<le> 0x7A) \<or>
     c = 0x2D \<or> c = 0x5F \<or> c = 0x2E \<or> c = 0x21 \<or> c = 0x7E \<or> c = 0x2A \<or>
     c = 0x27 \<or> c = 0x28 \<or> c = 0x29"

definition utf8 :: "nat \<Rightarrow> nat list" where
  "utf8 v =
     (if v < 0x80 then [v]
      else if v < 0x800 then [0xC0 + v div 64, 0x80 + v mod 64]
      else if v < 0x10000 then [0xE0 + v div 4096, 0x80 + (v div 64) mod 64, 0x80 + v mod 64]
      else [0xF0 + v div 262144, 0x80 + (v div 4096) mod 64, 0x80 + (v div 64) mod 64,
            0x80 + v mod 64])"

definition hex_digit :: "nat \<Rightarrow> 16 word" where
  "hex_digit n = (if n < 10 then of_nat (0x30 + n) else of_nat (0x41 + (n - 10)))"

definition percent :: "nat list \<Rightarrow> jsstring" where
  "percent bs = concat (map (\<lambda>b. [0x25, hex_digit (b div 16), hex_digit (b mod 16)]) bs)"

definition uri_malformed :: js_error where
  "uri_malformed = Thrown URIError (lit ''URI malformed'')"

definition prepend :: "jsstring \<Rightarrow> js_error + jsstring \<Rightarrow> js_error + jsstring" where
  "prepend xs r = (case r of Inl e \<Rightarrow> Inl e | Inr ys \<Rightarrow> Inr (xs @ ys))"

fun encodeURIComponent :: "jsstring \<Rightarrow> js_error + jsstring" where
  "encodeURIComponent [] = Inr []"
| "encodeURIComponent (c # cs) =
     (if uri_unreserved c then prepend [c] (encodeURIComponent cs)
      else if 0xDC00 \<le> c \<and> c \<le> 0xDFFF then Inl uri_malformed
      else if 0xD800 \<le> c \<and> c \<le> 0xDBFF then
        (case cs of
           [] \<Rightarrow> Inl uri_malformed
         | d # ds \<Rightarrow>
             if 0xDC00 \<le> d \<and> d \<le> 0xDFFF
             then prepend
                    (percent (utf8 ((unat c - 0xD800) * 0x400 + (unat d - 0xDC00) + 0x10000)))
                    (encodeURIComponent ds)
             else Inl uri_malformed)
      else prepend (percent (utf8 (unat c))) (encodeURIComponent cs))"

section \<open>Statements that may throw\<close>

text \<open>
  A statement takes the state and returns the state it leaves, with the value it threw
  if it threw: what it did before throwing stays done.  \<open>seq\<close> runs statements in
  order and stops at the first throw; \<open>try_ignore\<close> is
  \<^verbatim>\<open>try { ... } catch (_) { }\<close>.
\<close>

type_synonym 's stmt = "'s \<Rightarrow> js_error option \<times> 's"

fun seq :: "'s stmt list \<Rightarrow> 's stmt" where
  "seq [] s = (None, s)"
| "seq (f # fs) s = (case f s of (None, s') \<Rightarrow> seq fs s' | (Some e, s') \<Rightarrow> (Some e, s'))"

definition try_ignore :: "'s stmt \<Rightarrow> 's stmt" where
  "try_ignore f s = (None, snd (f s))"

section \<open>The response, the child processes and the session\<close>

record response =
  statusCode :: nat
  headers :: "(jsstring \<times> jsstring) list"
  headersSent :: bool
  jsonBody :: "jsval option"
  finished :: bool

definition fresh_response :: response where
  "fresh_response =
     \<lparr>statusCode = 200, headers = [], headersSent = False, jsonBody = None, finished = False\<rparr>"

definition headers_sent_error :: js_error where
  "headers_sent_error =
     Thrown PlainError (lit ''Cannot set headers after they are sent to the client'')"

definition res_setHeader :: "jsstring \<Rightarrow> jsstring \<Rightarrow> response stmt" where
  "res_setHeader name v r =
     (if headersSent r then (Some headers_sent_error, r)
      else (None, r\<lparr>headers := filter (\<lambda>kv. fst kv \<noteq> name) (headers r) @ [(name, v)]\<rparr>))"

definition res_flushHeaders :: "runtime \<Rightarrow> response stmt" where
  "res_flushHeaders rt r =
     (if flushHeaders_defined rt then (None, r\<lparr>headersSent := True\<rparr>) else (None, r))"

definition res_status :: "nat \<Rightarrow> response stmt" where
  "res_status c r = (None, r\<lparr>statusCode := c\<rparr>)"

text \<open>
  \<^verbatim>\<open>res.json(v)\<close> sends the JSON text of \<open>v\<close> and ends the response; the text of an
  object leaves out the properties whose value is \<^verbatim>\<open>undefined\<close>.  Once the headers
  are sent it throws.
\<close>

fun json_visible :: "jsval \<Rightarrow> jsval" where
  "json_visible (JObject kvs) = JObject (filter (\<lambda>kv. snd kv \<noteq> JUndefined) kvs)"
| "json_visible v = v"

definition res_json :: "jsval \<Rightarrow> response stmt" where
  "res_json v r =
     (if headersSent r then (Some headers_sent_error, r)
      else (None, r\<lparr>jsonBody := Some (json_visible v), headersSent := True, finished := True\<rparr>))"

definition res_end :: "response stmt" where
  "res_end r = (None, r\<lparr>headersSent := True, finished := True\<rparr>)"

datatype signal = SIGTERM | SIGKILL

text \<open>
  A child process started with \<^verbatim>\<open>spawn\<close>.  \<open>killCalls\<close> lists the calls of its
  \<^verbatim>\<open>kill\<close> method in order, \<open>exited\<close> says that Node has seen the process exit,
  and \<open>signalled\<close> lists the signals that were sent to the process.
\<close>

record child_proc =
  command :: jsstring
  args :: "jsstring list"
  killCalls :: "signal list"
  exited :: bool
  signalled :: "signal list"

text \<open>
  \<^verbatim>\<open>kill(sig)\<close> of a child process, as Node has it: while the process has not exited
  the signal is sent; once it has exited the call returns \<^verbatim>\<open>false\<close> and sends
  nothing.
\<close>

definition child_kill :: "signal \<Rightarrow> child_proc \<Rightarrow> child_proc" where
  "child_kill sig c =
     c\<lparr>killCalls := killCalls c @ [sig],
       signalled := (if exited c then signalled c else signalled c @ [sig])\<rparr>"

text \<open>The transcoder command built with fluent-ffmpeg; \<^verbatim>\<open>pipe\<close> runs it.\<close>

record ffmpeg_command =
  audioBitrate :: nat
  audioCodec :: jsstring
  format :: jsstring
  running :: bool
  ffKillCalls :: "signal list"

text \<open>What \<^verbatim>\<open>ff.pipe(res, { end: true })\<close> returned, as far as the source looks at it.\<close>

datatype pipe_result = WithoutKill | WithKill

datatype logline =
    LogDownloadError js_error
  | LogYtSpawnError js_error
  | LogYtExited "int option"
  | LogFfmpegCommand jsstring
  | LogFfmpegProgress jsstring
  | LogFfmpegError js_error
  | LogFfmpegStderr jsstring
  | LogConversionFinished jsstring
  | LogClientDisconnected

record session =
  ytProc :: "child_proc option"
  ffmpegProc :: "pipe_result option"
  ff :: "ffmpeg_command option"
  ytErr :: jsstring
  filename :: jsstring
  res :: response
  closeListener :: bool
  console :: "logline list"

definition fresh_session :: session where
  "fresh_session =
     \<lparr>ytProc = None, ffmpegProc = None, ff = None, ytErr = [], filename = [],
      res = fresh_response, closeListener = False, console = []\<rparr>"

definition on_res :: "response stmt \<Rightarrow> session stmt" where
  "on_res f s = (case f (res s) of (x, r) \<Rightarrow> (x, s\<lparr>res := r\<rparr>))"

definition log :: "logline \<Rightarrow> session stmt" where
  "log l s = (None, s\<lparr>console := console s @ [l]\<rparr>)"

text \<open>\<^verbatim>\<open>ytProc.kill(sig)\<close>: a TypeError when \<^verbatim>\<open>ytProc\<close> is still \<^verbatim>\<open>null\<close>.\<close>

definition ytProc_kill :: "signal \<Rightarrow> session stmt" where
  "ytProc_kill sig s =
     (case ytProc s of
        None \<Rightarrow> (Some (Thrown TypeError (lit ''Cannot read properties of null'')), s)
      | Some c \<Rightarrow> (None, s\<lparr>ytProc := Some (child_kill sig c)\<rparr>))"

text \<open>\<^verbatim>\<open>ytProc && ytProc.kill(sig)\<close>.\<close>

definition ytProc_and_kill :: "signal \<Rightarrow> session stmt" where
  "ytProc_and_kill sig s = (if ytProc s = None then (None, s) else ytProc_kill sig s)"

text \<open>\<^verbatim>\<open>ffmpegProc && ffmpegProc.kill && ffmpegProc.kill(sig)\<close>.\<close>

definition ffmpegProc_and_kill :: "signal \<Rightarrow> session stmt" where
  "ffmpegProc_and_kill sig s =
     (case ffmpegProc s of
        Some WithKill \<Rightarrow>
          (None, s\<lparr>ff := map_option (\<lambda>c. c\<lparr>ffKillCalls := ffKillCalls c @ [sig]\<rparr>) (ff s)\<rparr>)
      | _ \<Rightarrow> (None, s))"

section \<open>Fetching the metadata\<close>

text \<open>
  \<^verbatim>\<open>ytDlpMetadata\<close> returns a promise.  With the wrapper module it settles with what
  the wrapper's promise gives; without, the function spawns \<^verbatim>\<open>yt-dlp -j\<close>, collects the
  two output streams and settles on the first \<^verbatim>\<open>error\<close> or \<^verbatim>\<open>close\<close> event of the
  process.  A promise settles once: later calls of \<^verbatim>\<open>resolve\<close> and \<^verbatim>\<open>reject\<close> do
  nothing.
\<close>

datatype proc_event =
    StdoutData jsstring
  | StderrData jsstring
  | ProcError
  | ProcClose "int option"

record fetch =
  out_acc :: jsstring
  err_acc :: jsstring
  settled :: "(js_error + jsval) option"

definition fresh_fetch :: fetch where
  "fresh_fetch = \<lparr>out_acc = [], err_acc = [], settled = None\<rparr>"

definition settle :: "js_error + jsval \<Rightarrow> fetch \<Rightarrow> fetch" where
  "settle r f = (if settled f = None then f\<lparr>settled := Some r\<rparr> else f)"

text \<open>The message of a failed run: \<^verbatim>\<open>err.trim().split('\n').slice(-5).join('\n')\<close>.\<close>

definition trim :: "jsstring \<Rightarrow> jsstring" where
  "trim s = rev (dropWhile is_space_char (rev (dropWhile is_space_char s)))"

fun split_on :: "16 word \<Rightarrow> jsstring \<Rightarrow> jsstring list" where
  "split_on d [] = [[]]"
| "split_on d (c # cs) =
     (if c = d then [] # split_on d cs
      else (case split_on d cs of [] \<Rightarrow> [[c]] | l # ls \<Rightarrow> (c # l) # ls))"

fun join :: "jsstring \<Rightarrow> jsstring list \<Rightarrow> jsstring" where
  "join d [] = []"
| "join d [l] = l"
| "join d (l # m # ls) = l @ d @ join d (m # ls)"

definition last_lines :: "jsstring \<Rightarrow> jsstring" where
  "last_lines s =
     (let ls = split_on 0x0A (trim s) in join [0x0A] (drop (length ls - 5) ls))"

fun show_nat :: "nat \<Rightarrow> jsstring" where
  "show_nat n =
     (if n < 10 then [of_nat (0x30 + n)]
      else show_nat (n div 10) @ [of_nat (0x30 + n mod 10)])"

declare show_nat.simps [simp del]

definition show_code :: "int option \<Rightarrow> jsstring" where
  "show_code code =
     (case code of
        None \<Rightarrow> lit ''null''
      | Some i \<Rightarrow> if i < 0 then lit ''-'' @ show_nat (nat (- i)) else show_nat (nat i))"

definition exit_error :: "int option \<Rightarrow> jsstring \<Rightarrow> js_error" where
  "exit_error code e =
     Thrown PlainError (lit ''yt-dlp exited '' @ show_code code @ lit '': '' @ last_lines e)"

fun fetch_step :: "runtime \<Rightarrow> proc_event \<Rightarrow> fetch \<Rightarrow> fetch" where
  "fetch_step rt (StdoutData c) f = f\<lparr>out_acc := out_acc f @ c\<rparr>"
| "fetch_step rt (StderrData c) f = f\<lparr>err_acc := err_acc f @ c\<rparr>"
| "fetch_step rt ProcError f = settle (Inl (Thrown PlainError (lit ''yt-dlp not found on PATH''))) f"
| "fetch_step rt (ProcClose code) f =
     (if code \<noteq> Some 0 then settle (Inl (exit_error code (err_acc f))) f
      else settle (JSON_parse rt (out_acc f)) f)"

fun fetch_run :: "runtime \<Rightarrow> proc_event list \<Rightarrow> fetch \<Rightarrow> fetch" where
  "fetch_run rt [] f = f"
| "fetch_run rt (e # es) f = fetch_run rt es (fetch_step rt e f)"

datatype wrapper_outcome =
    WrapperResolved jsval
  | WrapperRejected js_error
  | WrapperPending

datatype meta_source = ViaWrapper wrapper_outcome | ViaSpawn "proc_event list"

text \<open>\<open>None\<close>: the promise never settles, and the handler awaiting it never resumes.\<close>

fun ytDlpMetadata :: "runtime \<Rightarrow> meta_source \<Rightarrow> (js_error + jsval) option" where
  "ytDlpMetadata rt (ViaWrapper (WrapperResolved (JString s))) = Some (JSON_parse rt s)"
| "ytDlpMetadata rt (ViaWrapper (WrapperResolved v)) = Some (Inr v)"
| "ytDlpMetadata rt (ViaWrapper (WrapperRejected e)) = Some (Inl e)"
| "ytDlpMetadata rt (ViaWrapper WrapperPending) = None"
| "ytDlpMetadata rt (ViaSpawn evs) = settled (fetch_run rt evs fresh_fetch)"

section \<open>The download handler\<close>

definition video_url :: "jsstring \<Rightarrow> jsstring" where
  "video_url vid = lit ''https://www.youtube.com/watch?v='' @ vid"

definition too_long_body :: jsval where
  "too_long_body = JObject [(lit ''error'', JString (lit ''Video too long. Maximum 1 hour allowed.''))]"

text \<open>The statements from the headers to the registration of the \<^verbatim>\<open>close\<close> listener.\<close>

definition spawn_yt :: "jsstring \<Rightarrow> session stmt" where
  "spawn_yt url s =
     (None, s\<lparr>ytProc := Some \<lparr>command = lit ''yt-dlp'',
                 args = [lit ''-f'', lit ''bestaudio'', lit ''-o'', lit ''-'', lit ''--no-playlist'', url],
                 killCalls = [], exited = False, signalled = []\<rparr>\<rparr>)"

definition make_ff :: "session stmt" where
  "make_ff s =
     (None, s\<lparr>ff := Some \<lparr>audioBitrate = 128, audioCodec = lit ''libmp3lame'',
                 format = lit ''mp3'', running = False, ffKillCalls = []\<rparr>\<rparr>)"

definition ff_pipe :: "runtime \<Rightarrow> session stmt" where
  "ff_pipe rt s =
     (None, s\<lparr>ff := map_option (\<lambda>c. c\<lparr>running := True\<rparr>) (ff s),
               ffmpegProc := Some (if pipe_result_has_kill rt then WithKill else WithoutKill)\<rparr>)"

definition start_stream :: "runtime \<Rightarrow> jsstring \<Rightarrow> jsstring \<Rightarrow> jsstring \<Rightarrow> session stmt" where
  "start_stream rt url fname enc =
     seq [
       (\<lambda>s. (None, s\<lparr>filename := fname\<rparr>)),
       on_res (res_setHeader (lit ''Content-Disposition'')
                 (lit ''attachment; filename='' @ [0x22] @ enc @ [0x22])),
       on_res (res_setHeader (lit ''Content-Type'') (lit ''audio/mpeg'')),
       on_res (res_setHeader (lit ''Cache-Control'') (lit ''no-cache'')),
       on_res (res_setHeader (lit ''Transfer-Encoding'') (lit ''chunked'')),
       on_res (res_setHeader (lit ''Connection'') (lit ''keep-alive'')),
       on_res (res_setHeader (lit ''Access-Control-Expose-Headers'') (lit ''Content-Disposition'')),
       on_res (res_flushHeaders rt),
       spawn_yt url,
       make_ff,
       ff_pipe rt,
       (\<lambda>s. (None, s\<lparr>closeListener := True\<rparr>))]"

text \<open>
  \<^verbatim>\<open>Math.floor(meta.duration || 0)\<close>, from the value of \<^verbatim>\<open>meta.duration\<close>.
\<close>

definition duration_of :: "runtime \<Rightarrow> jsval \<Rightarrow> jsnum" where
  "duration_of rt d = Math_floor (ToNumber rt (js_or d (JNumber (Fin 0))))"

text \<open>The body of the \<^verbatim>\<open>try\<close> block, after the metadata has arrived.\<close>

definition download_try :: "runtime \<Rightarrow> jsstring \<Rightarrow> jsval \<Rightarrow> session stmt" where
  "download_try rt url meta s =
     (case get_prop meta (lit ''duration'') of
        Inl e \<Rightarrow> (Some e, s)
      | Inr d \<Rightarrow>
          if js_gt (duration_of rt d) (Fin 3600)
          then seq [on_res (res_status 400), on_res (res_json too_long_body)] s
          else
            (case get_prop meta (lit ''title'') of
               Inl e \<Rightarrow> (Some e, s)
             | Inr t \<Rightarrow>
                 (case filename_of t of
                    Inl e \<Rightarrow> (Some e, s)
                  | Inr fname \<Rightarrow>
                      (case encodeURIComponent fname of
                         Inl e \<Rightarrow> (Some e, s)
                       | Inr enc \<Rightarrow> start_stream rt url fname enc s))))"

definition failed_body :: "js_error \<Rightarrow> jsval" where
  "failed_body e =
     JObject [(lit ''error'', JString (lit ''Download failed'')),
              (lit ''details'', JString (take 500 (String_of_error e)))]"

text \<open>The \<^verbatim>\<open>catch\<close> block of the handler.\<close>

definition download_catch :: "js_error \<Rightarrow> session stmt" where
  "download_catch e =
     seq [
       log (LogDownloadError e),
       try_ignore (ytProc_and_kill SIGTERM),
       (\<lambda>s. if \<not> headersSent (res s)
             then seq [on_res (res_status 500), on_res (res_json (failed_body e))] s
             else try_ignore (on_res res_end) s)]"

text \<open>
  The handler from the point where \<^verbatim>\<open>await ytDlpMetadata(url)\<close> resumes, with the
  value or the rejection of the promise.  A thrown value in the result is one that left
  the handler.
\<close>

definition download_handler :: "runtime \<Rightarrow> jsstring \<Rightarrow> js_error + jsval \<Rightarrow> js_error option \<times> session" where
  "download_handler rt vid meta_result =
     (case meta_result of
        Inl e \<Rightarrow> download_catch e fresh_session
      | Inr meta \<Rightarrow>
          (case download_try rt (video_url vid) meta fresh_session of
             (None, s) \<Rightarrow> (None, s)
           | (Some e, s) \<Rightarrow> download_catch e s))"

definition download_request ::
    "runtime \<Rightarrow> jsstring \<Rightarrow> meta_source \<Rightarrow> (js_error option \<times> session) option" where
  "download_request rt vid src = map_option (download_handler rt vid) (ytDlpMetadata rt src)"

section \<open>The events of a streaming session\<close>

datatype event =
    YtProcError js_error
  | YtStderrData jsstring
  | YtProcExit
  | YtProcClose "int option"
  | FfStart jsstring
  | FfProgress "jsstring option"
  | FfError js_error jsstring
  | FfEnd
  | ResFinish
  | ReqClose bool

text \<open>The \<^verbatim>\<open>error\<close> listener of the transcoder command.\<close>

definition conversion_body :: "js_error \<Rightarrow> jsval" where
  "conversion_body e =
     JObject [(lit ''error'', JString (lit ''Conversion failed'')),
              (lit ''details'', JString (String_of_error e))]"

definition on_ffmpeg_error :: "js_error \<Rightarrow> jsstring \<Rightarrow> session stmt" where
  "on_ffmpeg_error e stderr_text =
     seq [
       log (LogFfmpegError e),
       log (LogFfmpegStderr stderr_text),
       try_ignore (ytProc_kill SIGTERM),
       (\<lambda>s. if \<not> headersSent (res s)
             then seq [on_res (res_status 500), on_res (res_json (conversion_body e))] s
             else try_ignore (on_res res_end) s)]"

text \<open>
  The \<^verbatim>\<open>close\<close> listener of the request; \<open>aborted\<close> is the value of
  \<^verbatim>\<open>req.aborted\<close> when the event fires.
\<close>

definition on_req_close :: "bool \<Rightarrow> session stmt" where
  "on_req_close aborted s =
     (if aborted \<or> finished (res s)
      then seq [
             log LogClientDisconnected,
             try_ignore (ytProc_and_kill SIGKILL),
             try_ignore (ffmpegProc_and_kill SIGKILL)] s
      else (None, s))"

text \<open>The extraction process has exited: from then on its \<^verbatim>\<open>kill\<close> sends nothing.\<close>

definition ytProc_exits :: "session stmt" where
  "ytProc_exits s = (None, s\<lparr>ytProc := map_option (\<lambda>c. c\<lparr>exited := True\<rparr>) (ytProc s)\<rparr>)"

text \<open>
  One event.  A listener runs only once it is registered: those of the extraction
  process after \<^verbatim>\<open>spawn\<close>, those of the transcoder after the command is built, the one
  of the request at the end of the handler.  \<open>YtProcExit\<close> is the exit of the extraction
  process, for which the server has no listener; its \<^verbatim>\<open>close\<close> event comes after the
  exit.  \<open>ResFinish\<close> is the pipe ending the response when the transcoder's output ends
  (\<^verbatim>\<open>{ end: true }\<close>).
\<close>

fun step :: "event \<Rightarrow> session stmt" where
  "step (YtProcError e) s = (if ytProc s = None then (None, s) else log (LogYtSpawnError e) s)"
| "step (YtStderrData d) s =
     (if ytProc s = None then (None, s) else (None, s\<lparr>ytErr := ytErr s @ d\<rparr>))"
| "step YtProcExit s = ytProc_exits s"
| "step (YtProcClose code) s =
     (if ytProc s = None then (None, s)
      else seq [ytProc_exits,
                (\<lambda>s. if code = Some 0 then (None, s) else log (LogYtExited code) s)] s)"
| "step (FfStart cmd) s = (if ff s = None then (None, s) else log (LogFfmpegCommand cmd) s)"
| "step (FfProgress p) s =
     (case p of
        Some timemark \<Rightarrow>
          if ff s = None \<or> timemark = [] then (None, s) else log (LogFfmpegProgress timemark) s
      | None \<Rightarrow> (None, s))"
| "step (FfError e stderr_text) s =
     (if ff s = None then (None, s) else on_ffmpeg_error e stderr_text s)"
| "step FfEnd s =
     (if ff s = None then (None, s) else log (LogConversionFinished (filename s)) s)"
| "step ResFinish s =
     (if ff s = None then (None, s) else on_res res_end s)"
| "step (ReqClose aborted) s =
     (if closeListener s then on_req_close aborted s else (None, s))"

fun run :: "event list \<Rightarrow> session stmt" where
  "run [] s = (None, s)"
| "run (e # es) s = (case step e s of (None, s') \<Rightarrow> run es s' | (Some x, s') \<Rightarrow> (Some x, s'))"

section \<open>The other handlers that answer with a JSON error\<close>

text \<open>
  The search and the video handler wrap their work in one \<^verbatim>\<open>try\<close> block.  The block
  is given by its outcome: the value it passes to \<^verbatim>\<open>res.json\<close>, or the value thrown
  inside it, which the \<^verbatim>\<open>catch\<close> block turns into the answer.
\<close>

definition search_handler :: "jsval \<Rightarrow> js_error + jsval \<Rightarrow> response stmt" where
  "search_handler query outcome =
     (if \<not> truthy query
      then seq [res_status 400,
                res_json (JObject [(lit ''error'', JString (lit ''Query parameter is required''))])]
      else
        (case outcome of
           Inr videos \<Rightarrow> res_json videos
         | Inl e \<Rightarrow>
             seq [res_status 500,
                  res_json (JObject [(lit ''error'', JString (lit ''Search failed'')),
                                     (lit ''details'', JString (String_of_error e))])]))"

definition video_handler :: "js_error + jsval \<Rightarrow> response stmt" where
  "video_handler outcome =
     (case outcome of
        Inr info \<Rightarrow> res_json info
      | Inl e \<Rightarrow>
          seq [res_status 500,
               res_json (JObject [(lit ''error'', JString (lit ''Failed to get video info'')),
                                  (lit ''details'', JString (take 500 (String_of_error e)))])])"

text \<open>The handler registered last with \<^verbatim>\<open>app.use\<close>, for an error passed on by a route.\<close>

definition generic_error_handler :: "runtime \<Rightarrow> js_error \<Rightarrow> response stmt" where
  "generic_error_handler rt e =
     seq [res_status 500,
          res_json (JObject [(lit ''error'', JString (lit ''Internal server error'')),
                             (lit ''message'',
                                if NODE_ENV rt = Some (lit ''development'')
                                then JString (String_of_error e) else JUndefined)])]"

section \<open>Notions used in the statements\<close>

text \<open>The shape \<^verbatim>\<open>{error: string, details?: string}\<close> of a JSON body.\<close>

fun is_JString :: "jsval \<Rightarrow> bool" where
  "is_JString (JString s) = True"
| "is_JString v = False"

fun error_shape :: "jsval \<Rightarrow> bool" where
  "error_shape (JObject kvs) =
     (list_ex (\<lambda>kv. fst kv = lit ''error'') kvs \<and>
      list_all (\<lambda>kv. (fst kv = lit ''error'' \<or> fst kv = lit ''details'') \<and> is_JString (snd kv)) kvs)"
| "error_shape v = False"

fun is_data :: "proc_event \<Rightarrow> bool" where
  "is_data (StdoutData c) = True"
| "is_data (StderrData c) = True"
| "is_data e = False"

text \<open>
  A runtime for the closed examples below: no \<^verbatim>\<open>NODE_ENV\<close>, a response with
  \<^verbatim>\<open>flushHeaders\<close>, and a \<^verbatim>\<open>pipe\<close> that returns the stream it was given, which has
  no \<^verbatim>\<open>kill\<close>.  The examples consult its \<^verbatim>\<open>JSON.parse\<close> on the empty text only,
  which is not JSON, and never convert a string, an array or an object to a number.
\<close>

definition sample_runtime :: runtime where
  "sample_runtime =
     \<lparr>JSON_parse = (\<lambda>t. Inl (Thrown SyntaxError (lit ''Unexpected end of JSON input''))),
      ToNumber_other = (\<lambda>v. NaN),
      flushHeaders_defined = True,
      pipe_result_has_kill = False,
      NODE_ENV = None\<rparr>"

text \<open>
  The same runtime with the conversion of one string: \<^verbatim>\<open>Number("4000")\<close> is 4000.
  The example that uses it converts no other value.
\<close>

definition coercing_runtime :: runtime where
  "coercing_runtime =
     sample_runtime\<lparr>ToNumber_other :=
       (\<lambda>v. if v = JString (lit ''4000'') then Fin 4000 else NaN)\<rparr>"

text \<open>The session of a download that has started to stream, for the examples.\<close>

definition sample_session :: session where
  "sample_session = snd (download_handler sample_runtime (lit ''dQw4w9WgXcQ'') (Inr (JObject [])))"

section \<open>Auxiliary facts\<close>

lemmas stmt_defs = res_setHeader_def res_flushHeaders_def res_status_def res_json_def res_end_def
  on_res_def log_def ytProc_kill_def ytProc_and_kill_def ffmpegProc_and_kill_def try_ignore_def
  child_kill_def ytProc_exits_def

lemmas char_defs = kept_def is_word_char_def is_space_char_def in_allow_list_def

lemmas eval_defs = download_handler_def download_try_def duration_of_def js_or_def
  start_stream_def filename_of_def safeTitle_def spawn_yt_def make_ff_def ff_pipe_def
  video_url_def lit_def sanitize_def kept_def is_word_char_def is_space_char_def
  uri_unreserved_def prepend_def fresh_session_def fresh_response_def sample_runtime_def

lemma kept_iff: "kept c \<longleftrightarrow> in_allow_list c \<or> is_space_char c"
  unfolding char_defs by auto

lemma sanitize_length: "length (sanitize t) \<le> 60"
  by (simp add: sanitize_def)

lemma sanitize_kept: "list_all kept (sanitize t)"
  unfolding sanitize_def list_all_iff by (auto dest: in_set_takeD)

lemma kept_mp3: "list_all kept (lit ''.mp3'')"
  by (simp add: lit_def char_defs)

lemma sanitize_audio: "sanitize (lit ''audio'') = lit ''audio''"
  by (simp add: sanitize_def lit_def char_defs)

lemma safeTitle_string: "safeTitle (JString t) = Inr (if t = [] then lit ''audio'' else sanitize t)"
  by (simp add: safeTitle_def js_or_def sanitize_audio)

lemma safeTitle_falsy: "\<not> truthy t \<Longrightarrow> safeTitle t = Inr (lit ''audio'')"
  by (simp add: safeTitle_def js_or_def sanitize_audio)

lemma js_gt_floor: "js_gt (Math_floor n) (Fin 3600) \<Longrightarrow> js_gt n (Fin 3600) \<and> truthy (JNumber n)"
proof (cases n)
  case (Fin q)
  assume "js_gt (Math_floor n) (Fin 3600)"
  with Fin have "3600 < (of_int \<lfloor>q\<rfloor> :: rat)" by simp
  moreover have "(of_int \<lfloor>q\<rfloor> :: rat) \<le> q" by simp
  ultimately have "3600 < q" by linarith
  with Fin show ?thesis by simp
qed simp_all

lemma too_long_state:
  assumes "get_prop meta (lit ''duration'') = Inr d"
    and "js_gt (duration_of rt d) (Fin 3600)"
  shows "download_handler rt vid (Inr meta) =
           (None, fresh_session\<lparr>res := fresh_response\<lparr>statusCode := 400,
              jsonBody := Some too_long_body, headersSent := True, finished := True\<rparr>\<rparr>)"
  using assms
  by (simp add: download_handler_def download_try_def stmt_defs fresh_session_def
      fresh_response_def too_long_body_def)

lemma catch_fresh:
  "download_catch e fresh_session =
     (None, fresh_session\<lparr>console := [LogDownloadError e],
        res := fresh_response\<lparr>statusCode := 500, jsonBody := Some (failed_body e),
                 headersSent := True, finished := True\<rparr>\<rparr>)"
  by (simp add: download_catch_def stmt_defs fresh_session_def fresh_response_def failed_body_def)

lemma start_stream_fresh:
  "\<exists>s. start_stream rt url fname enc fresh_session = (None, s) \<and> statusCode (res s) = 200 \<and>
       jsonBody (res s) = None \<and> ytProc s \<noteq> None \<and> ff s \<noteq> None \<and> closeListener s \<and>
       filename s = fname \<and> \<not> finished (res s) \<and>
       (flushHeaders_defined rt \<longrightarrow> headersSent (res s))"
  by (simp add: start_stream_def stmt_defs fresh_session_def fresh_response_def spawn_yt_def
      make_ff_def ff_pipe_def)

lemma handler_cases:
  obtains (failed) e where "download_handler rt vid r = download_catch e fresh_session"
  | (too_long) meta d where "r = Inr meta" and "get_prop meta (lit ''duration'') = Inr d"
      and "js_gt (duration_of rt d) (Fin 3600)"
      and "download_handler rt vid r =
       (None, fresh_session\<lparr>res := fresh_response\<lparr>statusCode := 400,
          jsonBody := Some too_long_body, headersSent := True, finished := True\<rparr>\<rparr>)"
  | (streaming) s where "download_handler rt vid r = (None, s)" and "statusCode (res s) = 200"
      and "jsonBody (res s) = None" and "ytProc s \<noteq> None" and "ff s \<noteq> None"
      and "closeListener s" and "\<not> finished (res s)"
      and "flushHeaders_defined rt \<longrightarrow> headersSent (res s)"
proof (cases r)
  case (Inl e)
  then have "download_handler rt vid r = download_catch e fresh_session"
    by (simp add: download_handler_def)
  then show ?thesis by (rule failed)
next
  case (Inr meta)
  show ?thesis
  proof (cases "get_prop meta (lit ''duration'')")
    case (Inl e)
    with Inr have "download_handler rt vid r = download_catch e fresh_session"
      by (simp add: download_handler_def download_try_def)
    then show ?thesis by (rule failed)
  next
    case d: (Inr d)
    show ?thesis
    proof (cases "js_gt (duration_of rt d) (Fin 3600)")
      case True
      from too_long_state [OF d True, of vid] Inr have "download_handler rt vid r =
          (None, fresh_session\<lparr>res := fresh_response\<lparr>statusCode := 400,
             jsonBody := Some too_long_body, headersSent := True, finished := True\<rparr>\<rparr>)"
        by simp
      with Inr d True show ?thesis by (rule too_long)
    next
      case False
      show ?thesis
      proof (cases "get_prop meta (lit ''title'')")
        case (Inl e)
        with Inr d False have "download_handler rt vid r = download_catch e fresh_session"
          by (simp add: download_handler_def download_try_def)
        then show ?thesis by (rule failed)
      next
        case t: (Inr t)
        show ?thesis
        proof (cases "filename_of t")
          case (Inl e)
          with Inr d False t have "download_handler rt vid r = download_catch e fresh_session"
            by (simp add: download_handler_def download_try_def)
          then show ?thesis by (rule failed)
        next
          case f: (Inr fname)
          show ?thesis
          proof (cases "encodeURIComponent fname")
            case (Inl e)
            with Inr d False t f have "download_handler rt vid r = download_catch e fresh_session"
              by (simp add: download_handler_def download_try_def)
            then show ?thesis by (rule failed)
          next
            case enc: (Inr enc)
            obtain s where s: "start_stream rt (video_url vid) fname enc fresh_session = (None, s)"
              and props: "statusCode (res s) = 200" "jsonBody (res s) = None"
                "ytProc s \<noteq> None" "ff s \<noteq> None" "closeListener s"
                "\<not> finished (res s)" "flushHeaders_defined rt \<longrightarrow> headersSent (res s)"
              using start_stream_fresh [of rt "video_url vid" fname enc] by blast
            from Inr d False t f enc s have "download_handler rt vid r = (None, s)"
              by (simp add: download_handler_def download_try_def)
            from this props show ?thesis by (rule streaming)
          qed
        qed
      qed
    qed
  qed
qed

lemma not_too_long_status:
  assumes "get_prop meta (lit ''duration'') = Inr d"
    and "\<not> js_gt (duration_of rt d) (Fin 3600)"
  shows "statusCode (res (snd (download_handler rt vid (Inr meta)))) \<noteq> 400"
proof (cases rule: handler_cases [of rt vid "Inr meta"])
  case (failed e)
  then show ?thesis by (simp add: catch_fresh fresh_response_def)
next
  case (too_long meta' d')
  with assms show ?thesis by simp
next
  case (streaming s)
  then show ?thesis by simp
qed

lemma too_long_truthy:
  assumes "js_gt (duration_of rt d) (Fin 3600)"
  shows "truthy d \<and> js_gt (ToNumber rt d) (Fin 3600)"
proof (cases "truthy d")
  case True
  with assms have "js_gt (Math_floor (ToNumber rt d)) (Fin 3600)"
    by (simp add: duration_of_def js_or_def)
  with True show ?thesis by (simp add: js_gt_floor)
next
  case False
  with assms show ?thesis by (simp add: duration_of_def js_or_def)
qed

lemma get_prop_absent:
  assumes "k \<notin> fst ` set kvs"
  shows "get_prop (JObject kvs) k = Inr JUndefined"
proof -
  have "map_of (rev kvs) k = None"
    using assms by (simp add: map_of_eq_None_iff)
  then show ?thesis by simp
qed

text \<open>
  The header \<^verbatim>\<open>Content-Disposition\<close> carries the file name through
  \<^verbatim>\<open>encodeURIComponent\<close>.  A sanitised name has no surrogate, so the encoding does not
  throw, and a request with a string title and an accepted duration starts to stream
  under the name \<open>filename_of\<close> gives.
\<close>

lemma kept_not_surrogate:
  "kept c \<Longrightarrow> \<not> (0xDC00 \<le> c \<and> c \<le> 0xDFFF) \<and> \<not> (0xD800 \<le> c \<and> c \<le> 0xDBFF)"
  unfolding char_defs by (auto simp: word_le_nat_alt)

lemma encode_kept: "list_all kept f \<Longrightarrow> \<exists>enc. encodeURIComponent f = Inr enc"
proof (induction f)
  case Nil
  show ?case by simp
next
  case (Cons c cs)
  then obtain enc where "encodeURIComponent cs = Inr enc" by auto
  moreover from Cons.prems
  have "\<not> (0xDC00 \<le> c \<and> c \<le> 0xDFFF)" and "\<not> (0xD800 \<le> c \<and> c \<le> 0xDBFF)"
    by (simp_all add: kept_not_surrogate)
  ultimately show ?case
    by (auto simp: prepend_def)
qed

lemma filename_streams:
  assumes "get_prop meta (lit ''duration'') = Inr d"
    and "\<not> js_gt (duration_of rt d) (Fin 3600)"
    and "get_prop meta (lit ''title'') = Inr (JString t)"
  shows "\<exists>s. download_handler rt vid (Inr meta) = (None, s) \<and> ytProc s \<noteq> None \<and>
             Inr (filename s) = filename_of (JString t)"
proof -
  obtain b where b: "filename_of (JString t) = Inr (b @ lit ''.mp3'')"
    and chars: "list_all kept (b @ lit ''.mp3'')"
    using sanitize_kept [of t] kept_mp3
    by (auto simp: filename_of_def safeTitle_string sanitize_audio lit_def char_defs)
  from encode_kept [OF chars] obtain enc where enc: "encodeURIComponent (b @ lit ''.mp3'') = Inr enc"
    by blast
  obtain s where "start_stream rt (video_url vid) (b @ lit ''.mp3'') enc fresh_session = (None, s)"
    and "ytProc s \<noteq> None" and "filename s = b @ lit ''.mp3''"
    using start_stream_fresh by blast
  with assms b enc show ?thesis
    by (simp add: download_handler_def download_try_def)
qed

lemma settle_keeps: "settled f = Some r \<Longrightarrow> settled (fetch_step rt ev f) = Some r"
  by (cases ev) (simp_all add: settle_def)

lemma fetch_run_settled: "settled f = Some r \<Longrightarrow> settled (fetch_run rt evs f) = Some r"
  by (induction evs arbitrary: f) (simp_all add: settle_keeps)

lemma fetch_run_append: "fetch_run rt (xs @ ys) f = fetch_run rt ys (fetch_run rt xs f)"
  by (induction xs arbitrary: f) simp_all

lemma data_step_unsettled: "is_data ev \<Longrightarrow> settled (fetch_step rt ev f) = settled f"
  by (cases ev) simp_all

lemma fetch_run_data: "list_all is_data pre \<Longrightarrow> settled (fetch_run rt pre f) = settled f"
  by (induction pre arbitrary: f) (simp_all add: data_step_unsettled)

lemma close_settles:
  assumes "list_all is_data pre"
  shows "ytDlpMetadata rt (ViaSpawn (pre @ ProcClose code # post)) =
           Some (if code \<noteq> Some 0 then Inl (exit_error code (err_acc (fetch_run rt pre fresh_fetch)))
                 else JSON_parse rt (out_acc (fetch_run rt pre fresh_fetch)))"
proof -
  let ?f = "fetch_run rt pre fresh_fetch"
  have "settled ?f = None"
    using fetch_run_data [OF assms, of rt fresh_fetch] by (simp add: fresh_fetch_def)
  then have "settled (fetch_step rt (ProcClose code) ?f) =
      Some (if code \<noteq> Some 0 then Inl (exit_error code (err_acc ?f)) else JSON_parse rt (out_acc ?f))"
    by (simp add: settle_def)
  then show ?thesis
    by (simp add: fetch_run_append fetch_run_settled)
qed

lemma failed_fetch_no_spawn:
  assumes "ytDlpMetadata rt src = Some (Inl e)"
  shows "\<exists>s. download_request rt vid src = Some (None, s) \<and> ytProc s = None \<and> ff s = None \<and>
             ffmpegProc s = None \<and> statusCode (res s) = 500 \<and>
             jsonBody (res s) = Some (failed_body e)"
proof -
  from assms have "download_request rt vid src = Some (download_catch e fresh_session)"
    by (simp add: download_request_def download_handler_def)
  then show ?thesis
    by (simp add: catch_fresh) (simp add: fresh_session_def fresh_response_def)
qed

lemma on_ffmpeg_error_eq:
  assumes "ytProc s = Some c"
  shows "on_ffmpeg_error e t s =
     (None, s\<lparr>console := console s @ [LogFfmpegError e, LogFfmpegStderr t],
               ytProc := Some (child_kill SIGTERM c),
               res := (if headersSent (res s)
                       then (res s)\<lparr>headersSent := True, finished := True\<rparr>
                       else (res s)\<lparr>statusCode := 500, jsonBody := Some (conversion_body e),
                                     headersSent := True, finished := True\<rparr>)\<rparr>)"
  using assms by (simp add: on_ffmpeg_error_def stmt_defs conversion_body_def)

lemma on_req_close_eq:
  assumes "ytProc s = Some c"
  shows "on_req_close aborted s =
     (if aborted \<or> finished (res s)
      then (None, s\<lparr>console := console s @ [LogClientDisconnected],
                     ytProc := Some (child_kill SIGKILL c),
                     ff := (if ffmpegProc s = Some WithKill
                            then map_option (\<lambda>k. k\<lparr>ffKillCalls := ffKillCalls k @ [SIGKILL]\<rparr>) (ff s)
                            else ff s)\<rparr>)
      else (None, s))"
  using assms
  by (simp add: on_req_close_def stmt_defs split: option.splits pipe_result.splits)

lemma sample_session_eq:
  "sample_session =
     \<lparr>ytProc = Some \<lparr>command = lit ''yt-dlp'',
         args = [lit ''-f'', lit ''bestaudio'', lit ''-o'', lit ''-'', lit ''--no-playlist'',
                 lit ''https://www.youtube.com/watch?v=dQw4w9WgXcQ''],
         killCalls = [], exited = False, signalled = []\<rparr>,
      ffmpegProc = Some WithoutKill,
      ff = Some \<lparr>audioBitrate = 128, audioCodec = lit ''libmp3lame'', format = lit ''mp3'',
                 running = True, ffKillCalls = []\<rparr>,
      ytErr = [], filename = lit ''audio.mp3'',
      res = \<lparr>statusCode = 200,
             headers = [(lit ''Content-Disposition'', lit ''attachment; filename='' @ [0x22] @ lit ''audio.mp3'' @ [0x22]),
                        (lit ''Content-Type'', lit ''audio/mpeg''),
                        (lit ''Cache-Control'', lit ''no-cache''),
                        (lit ''Transfer-Encoding'', lit ''chunked''),
                        (lit ''Connection'', lit ''keep-alive''),
                        (lit ''Access-Control-Expose-Headers'', lit ''Content-Disposition'')],
             headersSent = True, jsonBody = None, finished = False\<rparr>,
      closeListener = True, console = []\<rparr>"
  by (simp add: sample_session_def eval_defs stmt_defs)

lemma step_no_throw: "fst (step ev s) = None"
  by (cases ev)
    (auto simp: on_ffmpeg_error_def on_req_close_def stmt_defs
      split: option.splits pipe_result.splits)

lemma run_no_throw: "fst (run evs s) = None"
proof (induction evs arbitrary: s)
  case Nil
  show ?case by simp
next
  case (Cons ev evs)
  obtain s' where "step ev s = (None, s')"
    using step_no_throw [of ev s] by (cases "step ev s") simp
  with Cons.IH [of s'] show ?case by simp
qed

lemma run_Cons: "run (ev # evs) s = run evs (snd (step ev s))"
proof -
  obtain s' where "step ev s = (None, s')"
    using step_no_throw [of ev s] by (cases "step ev s") simp
  then show ?thesis by simp
qed

lemma download_catch_no_throw: "fst (download_catch e s) = None"
  by (auto simp: download_catch_def stmt_defs split: option.splits)

lemma handler_no_throw: "fst (download_handler rt vid r) = None"
  by (auto simp: download_handler_def download_catch_no_throw split: sum.splits prod.splits option.splits)

lemma handler_listeners:
  "(ytProc (snd (download_handler rt vid r)) = None \<longleftrightarrow> ff (snd (download_handler rt vid r)) = None) \<and>
   (ff (snd (download_handler rt vid r)) = None \<longleftrightarrow> \<not> closeListener (snd (download_handler rt vid r)))"
proof (cases rule: handler_cases [of rt vid r])
  case (failed e)
  then show ?thesis by (simp add: catch_fresh) (simp add: fresh_session_def)
next
  case (too_long meta d)
  then show ?thesis by (simp add: fresh_session_def)
next
  case (streaming s)
  then show ?thesis by auto
qed

lemma step_listeners:
  assumes "(ytProc s = None \<longleftrightarrow> ff s = None) \<and> (ff s = None \<longleftrightarrow> \<not> closeListener s)"
  shows "(ytProc (snd (step ev s)) = None \<longleftrightarrow> ff (snd (step ev s)) = None) \<and>
         (ff (snd (step ev s)) = None \<longleftrightarrow> \<not> closeListener (snd (step ev s)))"
  using assms
  by (cases ev)
    (auto simp: on_ffmpeg_error_def on_req_close_def stmt_defs
      split: option.splits pipe_result.splits if_splits)

lemma run_listeners:
  assumes "(ytProc s = None \<longleftrightarrow> ff s = None) \<and> (ff s = None \<longleftrightarrow> \<not> closeListener s)"
  shows "(ytProc (snd (run evs s)) = None \<longleftrightarrow> ff (snd (run evs s)) = None) \<and>
         (ff (snd (run evs s)) = None \<longleftrightarrow> \<not> closeListener (snd (run evs s)))"
  using assms
proof (induction evs arbitrary: s)
  case Nil
  then show ?case by simp
next
  case (Cons ev evs)
  from Cons.IH [OF step_listeners [OF Cons.prems, of ev]] show ?case
    by (simp only: run_Cons)
qed

lemma session_listeners:
  assumes "s = snd (run evs (snd (download_handler rt vid r)))"
  shows "(ytProc s = None \<longleftrightarrow> ff s = None) \<and> (ff s = None \<longleftrightarrow> \<not> closeListener s)"
  unfolding assms by (rule run_listeners [OF handler_listeners])

text \<open>
  The headers of a session: a finished response has its headers sent, and with
  \<^verbatim>\<open>flushHeaders\<close> the headers are sent before the transcoder command exists.
\<close>

lemma handler_headers:
  "(finished (res (snd (download_handler rt vid r))) \<longrightarrow>
      headersSent (res (snd (download_handler rt vid r)))) \<and>
   (ff (snd (download_handler rt vid r)) \<noteq> None \<and> flushHeaders_defined rt \<longrightarrow>
      headersSent (res (snd (download_handler rt vid r))))"
proof (cases rule: handler_cases [of rt vid r])
  case (failed e)
  then show ?thesis by (simp add: catch_fresh)
next
  case (too_long meta d)
  then show ?thesis by simp
next
  case (streaming s)
  then show ?thesis by auto
qed

lemma step_headers:
  assumes "(finished (res s) \<longrightarrow> headersSent (res s)) \<and> (ff s \<noteq> None \<and> F \<longrightarrow> headersSent (res s))"
  shows "(finished (res (snd (step ev s))) \<longrightarrow> headersSent (res (snd (step ev s)))) \<and>
         (ff (snd (step ev s)) \<noteq> None \<and> F \<longrightarrow> headersSent (res (snd (step ev s))))"
  using assms
  by (cases ev)
    (auto simp: on_ffmpeg_error_def on_req_close_def stmt_defs
      split: option.splits pipe_result.splits if_splits)

lemma run_headers:
  assumes "(finished (res s) \<longrightarrow> headersSent (res s)) \<and> (ff s \<noteq> None \<and> F \<longrightarrow> headersSent (res s))"
  shows "(finished (res (snd (run evs s))) \<longrightarrow> headersSent (res (snd (run evs s)))) \<and>
         (ff (snd (run evs s)) \<noteq> None \<and> F \<longrightarrow> headersSent (res (snd (run evs s))))"
  using assms
proof (induction evs arbitrary: s)
  case Nil
  then show ?case by simp
next
  case (Cons ev evs)
  from Cons.IH [OF step_headers [OF Cons.prems, of ev]] show ?case
    by (simp only: run_Cons)
qed

lemma session_headers:
  assumes "s = snd (run evs (snd (download_handler rt vid r)))"
  shows "(finished (res s) \<longrightarrow> headersSent (res s)) \<and>
         (ff s \<noteq> None \<and> flushHeaders_defined rt \<longrightarrow> headersSent (res s))"
  unfolding assms by (rule run_headers [OF handler_headers])

text \<open>A process that has exited is sent no signal, and a finished response stays as it is.\<close>

lemma step_exited:
  assumes "ytProc s = Some c" and "exited c"
  shows "\<exists>c'. ytProc (snd (step ev s)) = Some c' \<and> exited c' \<and> signalled c' = signalled c"
  using assms
  by (cases ev)
    (auto simp: on_ffmpeg_error_def on_req_close_def stmt_defs
      split: option.splits pipe_result.splits if_splits)

lemma run_exited:
  assumes "ytProc s = Some c" and "exited c"
  shows "\<exists>c'. ytProc (snd (run evs s)) = Some c' \<and> exited c' \<and> signalled c' = signalled c"
  using assms
proof (induction evs arbitrary: s c)
  case Nil
  then show ?case by simp
next
  case (Cons ev evs)
  from step_exited [OF Cons.prems, of ev] obtain c1
    where c1: "ytProc (snd (step ev s)) = Some c1" "exited c1" and eq: "signalled c1 = signalled c"
    by blast
  from Cons.IH [OF c1] eq show ?case
    by (simp only: run_Cons)
qed

lemma step_finished:
  assumes "finished (res s)" and "headersSent (res s)"
  shows "res (snd (step ev s)) = res s"
  using assms
  by (cases ev)
    (auto simp: on_ffmpeg_error_def on_req_close_def stmt_defs
      split: option.splits pipe_result.splits if_splits)

lemma run_finished:
  assumes "finished (res s)" and "headersSent (res s)"
  shows "res (snd (run evs s)) = res s"
  using assms
proof (induction evs arbitrary: s)
  case Nil
  then show ?case by simp
next
  case (Cons ev evs)
  have eq: "res (snd (step ev s)) = res s"
    using Cons.prems by (rule step_finished)
  with Cons.prems have "finished (res (snd (step ev s)))" "headersSent (res (snd (step ev s)))"
    by simp_all
  from Cons.IH [OF this] eq show ?case
    by (simp only: run_Cons)
qed

lemma sample_session_reached:
  "sample_session = snd (run [] (snd (download_handler sample_runtime (lit ''dQw4w9WgXcQ'') (Inr (JObject [])))))"
  by (simp add: sample_session_def)

lemma null_meta_status:
  assumes "get_prop meta (lit ''duration'') = Inl e"
  shows "statusCode (res (snd (download_handler rt vid (Inr meta)))) = 500"
  using assms
  by (simp add: download_handler_def download_try_def catch_fresh fresh_response_def)

lemma shape_too_long: "error_shape too_long_body"
  by (simp add: too_long_body_def lit_def)

lemma shape_failed: "error_shape (failed_body e)"
  by (simp add: failed_body_def lit_def)

lemma shape_conversion: "error_shape (conversion_body e)"
  by (simp add: conversion_body_def lit_def)

lemma handler_body_shape:
  assumes "jsonBody (res (snd (download_handler rt vid r))) = Some b"
  shows "error_shape b"
proof (cases rule: handler_cases [of rt vid r])
  case (failed e)
  with assms have "b = failed_body e"
    by (simp add: catch_fresh fresh_response_def)
  then show ?thesis by (simp add: shape_failed)
next
  case (too_long meta d)
  with assms have "b = too_long_body" by simp
  then show ?thesis by (simp add: shape_too_long)
next
  case (streaming s)
  with assms show ?thesis by simp
qed

lemma search_body_shape:
  assumes "400 \<le> statusCode (snd (search_handler query outcome fresh_response))"
  shows "\<exists>b. jsonBody (snd (search_handler query outcome fresh_response)) = Some b \<and> error_shape b"
  using assms
  by (cases outcome)
    (auto simp: search_handler_def stmt_defs fresh_response_def lit_def split: if_splits)

lemma video_body_shape:
  assumes "400 \<le> statusCode (snd (video_handler outcome fresh_response))"
  shows "\<exists>b. jsonBody (snd (video_handler outcome fresh_response)) = Some b \<and> error_shape b"
  using assms
  by (cases outcome)
    (auto simp: video_handler_def stmt_defs fresh_response_def lit_def split: if_splits)

lemma generic_body:
  "jsonBody (snd (generic_error_handler rt e fresh_response)) =
     Some (JObject ((lit ''error'', JString (lit ''Internal server error'')) #
        (if NODE_ENV rt = Some (lit ''development'')
         then [(lit ''message'', JString (String_of_error e))] else [])))"
  by (simp add: generic_error_handler_def stmt_defs fresh_response_def)

section \<open>The duration ceiling\<close>

text \<open>
  Claim C1, as the handler has it.  The handler compares \<^verbatim>\<open>Math.floor\<close> of the
  duration with 3600.  When the metadata carries a number whose whole-second part is
  above 3600, the handler leaves no thrown value, answers with status 400 and the JSON
  body \<^verbatim>\<open>{error: 'Video too long. Maximum 1 hour allowed.'}\<close>, sets no header, starts
  neither the streaming extraction process nor the transcoder command, and registers no
  \<^verbatim>\<open>close\<close> listener.
\<close>

theorem C1_too_long_rejected:
  assumes "get_prop meta (lit ''duration'') = Inr (JNumber n)"
    and "js_gt (Math_floor n) (Fin 3600)"
  shows "fst (download_handler rt vid (Inr meta)) = None \<and>
         statusCode (res (snd (download_handler rt vid (Inr meta)))) = 400 \<and>
         jsonBody (res (snd (download_handler rt vid (Inr meta)))) = Some too_long_body \<and>
         headers (res (snd (download_handler rt vid (Inr meta)))) = [] \<and>
         ytProc (snd (download_handler rt vid (Inr meta))) = None \<and>
         ff (snd (download_handler rt vid (Inr meta))) = None \<and>
         ffmpegProc (snd (download_handler rt vid (Inr meta))) = None \<and>
         \<not> closeListener (snd (download_handler rt vid (Inr meta)))"
proof -
  from assms(2) have "truthy (JNumber n)"
    by (simp add: js_gt_floor)
  with assms(2) have "js_gt (duration_of rt (JNumber n)) (Fin 3600)"
    by (simp add: duration_of_def js_or_def)
  from too_long_state [OF assms(1) this] show ?thesis
    by (simp add: fresh_session_def fresh_response_def)
qed

text \<open>A video of 3601 seconds.\<close>

theorem C1_too_long_rejected_witness:
  "get_prop (JObject [(lit ''duration'', JNumber (Fin 3601))]) (lit ''duration'') =
     Inr (JNumber (Fin 3601)) \<and>
   js_gt (Math_floor (Fin 3601)) (Fin 3600) \<and>
   statusCode (res (snd (download_handler sample_runtime (lit ''dQw4w9WgXcQ'')
      (Inr (JObject [(lit ''duration'', JNumber (Fin 3601))]))))) = 400 \<and>
   ytProc (snd (download_handler sample_runtime (lit ''dQw4w9WgXcQ'')
      (Inr (JObject [(lit ''duration'', JNumber (Fin 3601))])))) = None"
proof -
  have h1: "get_prop (JObject [(lit ''duration'', JNumber (Fin 3601))]) (lit ''duration'') =
      Inr (JNumber (Fin 3601))"
    by (simp add: lit_def)
  have h2: "js_gt (Math_floor (Fin 3601)) (Fin 3600)"
    by simp
  from C1_too_long_rejected [OF h1 h2, of sample_runtime "lit ''dQw4w9WgXcQ''"] h1 h2
  show ?thesis by simp
qed

text \<open>
  A video of 3600.5 seconds is longer than 3600 seconds; its whole-second part is not.
  The handler answers with the status 200 of a download, starts \<^verbatim>\<open>yt-dlp\<close> and runs
  the transcoder.  And for a video of 3601 seconds the answer 400 has a body: the JSON
  error is written to the response.
\<close>

theorem C1_duration_counterexample:
  "(3600 :: rat) < 7201 / 2 \<and>
   statusCode (res (snd (download_handler sample_runtime (lit ''dQw4w9WgXcQ'')
     (Inr (JObject [(lit ''duration'', JNumber (Fin (7201 / 2)))]))))) = 200 \<and>
   map_option command (ytProc (snd (download_handler sample_runtime (lit ''dQw4w9WgXcQ'')
     (Inr (JObject [(lit ''duration'', JNumber (Fin (7201 / 2)))]))))) = Some (lit ''yt-dlp'') \<and>
   map_option running (ff (snd (download_handler sample_runtime (lit ''dQw4w9WgXcQ'')
     (Inr (JObject [(lit ''duration'', JNumber (Fin (7201 / 2)))]))))) = Some True \<and>
   jsonBody (res (snd (download_handler sample_runtime (lit ''dQw4w9WgXcQ'')
     (Inr (JObject [(lit ''duration'', JNumber (Fin 3601))]))))) =
     Some (JObject [(lit ''error'', JString (lit ''Video too long. Maximum 1 hour allowed.''))])"
  by (simp add: eval_defs stmt_defs too_long_body_def)

text \<open>
  Claim C9, as the handler has it.  When the value of \<^verbatim>\<open>meta.duration\<close> is falsy
  (\<^verbatim>\<open>undefined\<close> for a missing field, \<^verbatim>\<open>null\<close>, \<^verbatim>\<open>0\<close>, ...), the duration is 0
  and the handler does not answer 400.  The handler answers 400 exactly when the metadata
  has a truthy value there whose conversion to a number, rounded down, is above 3600;
  that number is then above 3600, and when the value is a number it is above 3600
  itself.  The value need not be a number: \<^verbatim>\<open>Math.floor\<close> converts it.  A JSON
  object without the key has the value \<^verbatim>\<open>undefined\<close> there.
\<close>

theorem C9_duration_check:
  "(get_prop meta (lit ''duration'') = Inr d \<and> \<not> truthy d \<longrightarrow>
      duration_of rt d = Fin 0 \<and>
      statusCode (res (snd (download_handler rt vid (Inr meta)))) \<noteq> 400) \<and>
   (statusCode (res (snd (download_handler rt vid (Inr meta)))) = 400 \<longrightarrow>
      (\<exists>v. get_prop meta (lit ''duration'') = Inr v \<and> truthy v \<and>
           js_gt (Math_floor (ToNumber rt v)) (Fin 3600) \<and>
           js_gt (ToNumber rt v) (Fin 3600))) \<and>
   (get_prop meta (lit ''duration'') = Inr d \<and> truthy d \<and>
    js_gt (Math_floor (ToNumber rt d)) (Fin 3600) \<longrightarrow>
      statusCode (res (snd (download_handler rt vid (Inr meta)))) = 400) \<and>
   (statusCode (res (snd (download_handler rt vid (Inr meta)))) = 400 \<and>
    get_prop meta (lit ''duration'') = Inr (JNumber n) \<longrightarrow> js_gt n (Fin 3600)) \<and>
   (lit ''duration'' \<notin> fst ` set kvs \<longrightarrow>
      get_prop (JObject kvs) (lit ''duration'') = Inr JUndefined)"
proof -
  have rejected: "\<exists>v. get_prop meta (lit ''duration'') = Inr v \<and> truthy v \<and>
      js_gt (Math_floor (ToNumber rt v)) (Fin 3600) \<and> js_gt (ToNumber rt v) (Fin 3600)"
    if r: "statusCode (res (snd (download_handler rt vid (Inr meta)))) = 400"
  proof (cases "get_prop meta (lit ''duration'')")
    case (Inl e)
    from null_meta_status [OF this, of rt vid] r show ?thesis by simp
  next
    case (Inr v)
    have g: "js_gt (duration_of rt v) (Fin 3600)"
      using not_too_long_status [OF Inr, of rt vid] r by blast
    from too_long_truthy [OF g] have tv: "truthy v" and "js_gt (ToNumber rt v) (Fin 3600)"
      by simp_all
    moreover from g tv have "js_gt (Math_floor (ToNumber rt v)) (Fin 3600)"
      by (simp add: duration_of_def js_or_def)
    ultimately show ?thesis using Inr by simp
  qed
  show ?thesis
  proof (intro conjI impI)
    assume a: "get_prop meta (lit ''duration'') = Inr d \<and> \<not> truthy d"
    then show z: "duration_of rt d = Fin 0"
      by (simp add: duration_of_def js_or_def)
    then have "\<not> js_gt (duration_of rt d) (Fin 3600)" by simp
    with a not_too_long_status [of meta d rt vid]
    show "statusCode (res (snd (download_handler rt vid (Inr meta)))) \<noteq> 400"
      by blast
  next
    assume "statusCode (res (snd (download_handler rt vid (Inr meta)))) = 400"
    then show "\<exists>v. get_prop meta (lit ''duration'') = Inr v \<and> truthy v \<and>
           js_gt (Math_floor (ToNumber rt v)) (Fin 3600) \<and> js_gt (ToNumber rt v) (Fin 3600)"
      by (rule rejected)
  next
    assume a: "get_prop meta (lit ''duration'') = Inr d \<and> truthy d \<and>
      js_gt (Math_floor (ToNumber rt d)) (Fin 3600)"
    then have "js_gt (duration_of rt d) (Fin 3600)"
      by (simp add: duration_of_def js_or_def)
    with a too_long_state [of meta d rt vid]
    show "statusCode (res (snd (download_handler rt vid (Inr meta)))) = 400"
      by (simp add: fresh_session_def fresh_response_def)
  next
    assume a: "statusCode (res (snd (download_handler rt vid (Inr meta)))) = 400 \<and>
      get_prop meta (lit ''duration'') = Inr (JNumber n)"
    with rejected show "js_gt n (Fin 3600)" by auto
  next
    assume "lit ''duration'' \<notin> fst ` set kvs"
    then show "get_prop (JObject kvs) (lit ''duration'') = Inr JUndefined"
      by (rule get_prop_absent)
  qed
qed

text \<open>
  Metadata with a title and no duration, and metadata with a duration of 4000 seconds.
\<close>

theorem C9_duration_check_witness:
  "get_prop (JObject [(lit ''title'', JString (lit ''Song''))]) (lit ''duration'') = Inr JUndefined \<and>
   \<not> truthy JUndefined \<and>
   duration_of sample_runtime JUndefined = Fin 0 \<and>
   statusCode (res (snd (download_handler sample_runtime (lit ''dQw4w9WgXcQ'')
     (Inr (JObject [(lit ''title'', JString (lit ''Song''))]))))) = 200 \<and>
   lit ''duration'' \<notin> fst ` set [(lit ''title'', JString (lit ''Song''))] \<and>
   get_prop (JObject [(lit ''duration'', JNumber (Fin 4000))]) (lit ''duration'') = Inr (JNumber (Fin 4000)) \<and>
   truthy (JNumber (Fin 4000)) \<and>
   js_gt (Math_floor (ToNumber sample_runtime (JNumber (Fin 4000)))) (Fin 3600) \<and>
   statusCode (res (snd (download_handler sample_runtime (lit ''dQw4w9WgXcQ'')
     (Inr (JObject [(lit ''duration'', JNumber (Fin 4000))]))))) = 400 \<and>
   js_gt (Fin 4000) (Fin 3600)"
proof -
  let ?m1 = "JObject [(lit ''title'', JString (lit ''Song''))]"
  let ?m2 = "JObject [(lit ''duration'', JNumber (Fin 4000))]"
  have h: "get_prop ?m1 (lit ''duration'') = Inr JUndefined"
    and k: "lit ''duration'' \<notin> fst ` set [(lit ''title'', JString (lit ''Song''))]"
    and g: "get_prop ?m2 (lit ''duration'') = Inr (JNumber (Fin 4000))"
    by (simp_all add: lit_def)
  have st: "statusCode (res (snd (download_handler sample_runtime (lit ''dQw4w9WgXcQ'') (Inr ?m1)))) = 200"
    by (simp add: eval_defs stmt_defs)
  from C9_duration_check [where meta = ?m1 and d = JUndefined and rt = sample_runtime
      and vid = "lit ''dQw4w9WgXcQ''" and kvs = "[(lit ''title'', JString (lit ''Song''))]"]
    C9_duration_check [where meta = ?m2 and d = "JNumber (Fin 4000)" and rt = sample_runtime
      and vid = "lit ''dQw4w9WgXcQ''" and n = "Fin 4000"]
    h k g st
  show ?thesis by auto
qed

text \<open>
  Metadata whose duration is the string \<^verbatim>\<open>"4000"\<close>, which is not a number: the
  handler answers 400.
\<close>

theorem C9_string_duration_counterexample:
  "get_prop (JObject [(lit ''duration'', JString (lit ''4000''))]) (lit ''duration'') =
     Inr (JString (lit ''4000'')) \<and>
   ToNumber coercing_runtime (JString (lit ''4000'')) = Fin 4000 \<and>
   statusCode (res (snd (download_handler coercing_runtime (lit ''dQw4w9WgXcQ'')
     (Inr (JObject [(lit ''duration'', JString (lit ''4000''))]))))) = 400 \<and>
   jsonBody (res (snd (download_handler coercing_runtime (lit ''dQw4w9WgXcQ'')
     (Inr (JObject [(lit ''duration'', JString (lit ''4000''))]))))) =
     Some (JObject [(lit ''error'', JString (lit ''Video too long. Maximum 1 hour allowed.''))])"
  by (simp add: eval_defs stmt_defs coercing_runtime_def too_long_body_def)

section \<open>The file name\<close>

text \<open>
  Claim C5, as the handler has it.  For every title string, the base of the file name
  has at most 60 code units, and every code unit of the file name is in the allow-list
  \<^verbatim>\<open>[A-Za-z0-9 ._-]\<close> or is one of the white-space characters that \<^verbatim>\<open>\s\<close> matches
  (tab, line feed, carriage return, no-break space and the like), which the regular
  expression keeps too.
\<close>

theorem C5_filename_characters:
  "\<exists>b. safeTitle (JString t) = Inr b \<and> filename_of (JString t) = Inr (b @ lit ''.mp3'') \<and>
       length b \<le> 60 \<and>
       list_all (\<lambda>c. in_allow_list c \<or> is_space_char c) (b @ lit ''.mp3'')"
proof -
  let ?b = "if t = [] then lit ''audio'' else sanitize t"
  have len: "length ?b \<le> 60"
    by (simp add: sanitize_length lit_def)
  have "list_all kept ?b"
    using sanitize_kept [of t] sanitize_kept [of "lit ''audio''"]
    by (simp add: sanitize_audio)
  then have "list_all kept (?b @ lit ''.mp3'')"
    using kept_mp3 by simp
  then have chars: "list_all (\<lambda>c. in_allow_list c \<or> is_space_char c) (?b @ lit ''.mp3'')"
    by (simp add: list_all_iff kept_iff)
  have "filename_of (JString t) = Inr (?b @ lit ''.mp3'')"
    by (simp add: filename_of_def safeTitle_string)
  with len chars show ?thesis
    using safeTitle_string [of t] by blast
qed

text \<open>The title \<^verbatim>\<open>Song: Bad/Name?.mp3\<close>.\<close>

theorem C5_filename_characters_witness:
  "filename_of (JString (lit ''Song: Bad/Name?.mp3'')) = Inr (lit ''Song BadName.mp3.mp3'') \<and>
   (\<exists>b. filename_of (JString (lit ''Song: Bad/Name?.mp3'')) = Inr (b @ lit ''.mp3'') \<and>
        length b \<le> 60 \<and>
        list_all (\<lambda>c. in_allow_list c \<or> is_space_char c) (b @ lit ''.mp3''))"
proof -
  have "filename_of (JString (lit ''Song: Bad/Name?.mp3'')) = Inr (lit ''Song BadName.mp3.mp3'')"
    by (simp add: filename_of_def safeTitle_def js_or_def sanitize_def lit_def char_defs)
  with C5_filename_characters [of "lit ''Song: Bad/Name?.mp3''"] show ?thesis
    by blast
qed

text \<open>The title \<^verbatim>\<open>a<TAB>b\<close>: the tab is outside the allow-list and stays in the name.\<close>

theorem C5_tab_counterexample:
  "filename_of (JString [0x61, 0x09, 0x62]) = Inr [0x61, 0x09, 0x62, 0x2E, 0x6D, 0x70, 0x33] \<and>
   \<not> list_all in_allow_list [0x61, 0x09, 0x62, 0x2E, 0x6D, 0x70, 0x33]"
  by (simp add: filename_of_def safeTitle_def js_or_def sanitize_def lit_def char_defs)

text \<open>
  Claim C10.  A falsy title gives the file name \<^verbatim>\<open>audio.mp3\<close>.  A title that is a
  non-empty string of characters the regular expression removes gives an empty base and
  the file name \<^verbatim>\<open>.mp3\<close>: the fallback is applied before the characters are removed.
\<close>

theorem C10_filename_fallback:
  "(\<not> truthy title \<longrightarrow> filename_of title = Inr (lit ''audio.mp3'')) \<and>
   (t \<noteq> [] \<and> list_all (\<lambda>c. \<not> kept c) t \<longrightarrow>
      safeTitle (JString t) = Inr [] \<and> filename_of (JString t) = Inr (lit ''.mp3''))"
proof (intro conjI impI)
  assume "\<not> truthy title"
  then show "filename_of title = Inr (lit ''audio.mp3'')"
    by (simp add: filename_of_def safeTitle_falsy lit_def)
next
  assume a: "t \<noteq> [] \<and> list_all (\<lambda>c. \<not> kept c) t"
  then have "filter kept t = []"
    by (simp add: list_all_iff filter_empty_conv)
  with a show "safeTitle (JString t) = Inr []"
    by (simp add: safeTitle_string sanitize_def)
  then show "filename_of (JString t) = Inr (lit ''.mp3'')"
    by (simp add: filename_of_def)
qed

text \<open>The title \<^verbatim>\<open>null\<close>, and the title \<^verbatim>\<open>?!/\<close>.\<close>

theorem C10_filename_fallback_witness:
  "\<not> truthy JNull \<and> filename_of JNull = Inr (lit ''audio.mp3'') \<and>
   lit ''?!/'' \<noteq> [] \<and> list_all (\<lambda>c. \<not> kept c) (lit ''?!/'') \<and>
   filename_of (JString (lit ''?!/'')) = Inr (lit ''.mp3'')"
  using C10_filename_fallback [of JNull "lit ''?!/''"]
  by (simp add: lit_def char_defs)

section \<open>Failing to fetch the metadata\<close>

text \<open>
  Claim C6, as the code has it.  On the spawned process, when no \<^verbatim>\<open>error\<close> event
  came first: a close with status 0 and a text that is not JSON fails with the error of
  \<^verbatim>\<open>JSON.parse\<close>, and a close with another status fails with the error
  \<^verbatim>\<open>yt-dlp exited <code>: <last lines of the error output>\<close>, whatever the text.
  Through the wrapper a text that is not JSON fails with the error of \<^verbatim>\<open>JSON.parse\<close>.
  Whenever the fetch fails, the download handler answers 500 with the body
  \<^verbatim>\<open>{error: 'Download failed', details: String(err).slice(0, 500)}\<close> and starts
  neither the streaming extraction process nor the transcoder.
\<close>

theorem C6_malformed_metadata:
  "(list_all is_data pre \<and> JSON_parse rt (out_acc (fetch_run rt pre fresh_fetch)) = Inl e \<longrightarrow>
      ytDlpMetadata rt (ViaSpawn (pre @ ProcClose (Some 0) # post)) = Some (Inl e)) \<and>
   (list_all is_data pre \<and> code \<noteq> Some 0 \<longrightarrow>
      ytDlpMetadata rt (ViaSpawn (pre @ ProcClose code # post)) =
        Some (Inl (Thrown PlainError
          (lit ''yt-dlp exited '' @ show_code code @ lit '': '' @
           last_lines (err_acc (fetch_run rt pre fresh_fetch)))))) \<and>
   (JSON_parse rt t = Inl e \<longrightarrow>
      ytDlpMetadata rt (ViaWrapper (WrapperResolved (JString t))) = Some (Inl e)) \<and>
   (ytDlpMetadata rt src = Some (Inl e) \<longrightarrow>
      (\<exists>s. download_request rt vid src = Some (None, s) \<and> ytProc s = None \<and> ff s = None \<and>
           ffmpegProc s = None \<and> statusCode (res s) = 500 \<and>
           jsonBody (res s) =
             Some (JObject [(lit ''error'', JString (lit ''Download failed'')),
                            (lit ''details'', JString (take 500 (String_of_error e)))])))"
proof (intro conjI impI)
  assume a: "list_all is_data pre \<and> JSON_parse rt (out_acc (fetch_run rt pre fresh_fetch)) = Inl e"
  with close_settles [of pre rt "Some 0" post]
  show "ytDlpMetadata rt (ViaSpawn (pre @ ProcClose (Some 0) # post)) = Some (Inl e)"
    by simp
next
  assume "list_all is_data pre \<and> code \<noteq> Some 0"
  with close_settles [of pre rt code post]
  show "ytDlpMetadata rt (ViaSpawn (pre @ ProcClose code # post)) =
        Some (Inl (Thrown PlainError
          (lit ''yt-dlp exited '' @ show_code code @ lit '': '' @
           last_lines (err_acc (fetch_run rt pre fresh_fetch)))))"
    by (simp add: exit_error_def)
next
  assume "JSON_parse rt t = Inl e"
  then show "ytDlpMetadata rt (ViaWrapper (WrapperResolved (JString t))) = Some (Inl e)"
    by simp
next
  assume "ytDlpMetadata rt src = Some (Inl e)"
  from failed_fetch_no_spawn [OF this, of vid]
  show "\<exists>s. download_request rt vid src = Some (None, s) \<and> ytProc s = None \<and> ff s = None \<and>
           ffmpegProc s = None \<and> statusCode (res s) = 500 \<and>
           jsonBody (res s) =
             Some (JObject [(lit ''error'', JString (lit ''Download failed'')),
                            (lit ''details'', JString (take 500 (String_of_error e)))])"
    by (simp add: failed_body_def)
qed

text \<open>
  A process that writes an error line and no JSON, closing with status 0 and with
  status 1; a wrapper that returns the empty text; and the download request of the
  process that closed with status 1.
\<close>

theorem C6_malformed_metadata_witness:
  "list_all is_data [StderrData (lit ''ERROR: x'')] \<and>
   JSON_parse sample_runtime (out_acc (fetch_run sample_runtime [StderrData (lit ''ERROR: x'')] fresh_fetch)) =
     Inl (Thrown SyntaxError (lit ''Unexpected end of JSON input'')) \<and>
   ytDlpMetadata sample_runtime (ViaSpawn ([StderrData (lit ''ERROR: x'')] @ ProcClose (Some 0) # [])) =
     Some (Inl (Thrown SyntaxError (lit ''Unexpected end of JSON input''))) \<and>
   Some (1::int) \<noteq> Some 0 \<and>
   ytDlpMetadata sample_runtime (ViaSpawn ([StderrData (lit ''ERROR: x'')] @ ProcClose (Some 1) # [])) =
     Some (Inl (Thrown PlainError (lit ''yt-dlp exited 1: ERROR: x''))) \<and>
   JSON_parse sample_runtime [] = Inl (Thrown SyntaxError (lit ''Unexpected end of JSON input'')) \<and>
   ytDlpMetadata sample_runtime (ViaWrapper (WrapperResolved (JString []))) =
     Some (Inl (Thrown SyntaxError (lit ''Unexpected end of JSON input''))) \<and>
   (\<exists>s. download_request sample_runtime (lit ''dQw4w9WgXcQ'')
           (ViaSpawn ([StderrData (lit ''ERROR: x'')] @ ProcClose (Some 1) # [])) = Some (None, s) \<and>
        ytProc s = None \<and> ff s = None \<and> ffmpegProc s = None \<and> statusCode (res s) = 500 \<and>
        jsonBody (res s) =
          Some (JObject [(lit ''error'', JString (lit ''Download failed'')),
                         (lit ''details'', JString (lit ''Error: yt-dlp exited 1: ERROR: x''))]))"
proof -
  let ?pre = "[StderrData (lit ''ERROR: x'')]"
  let ?syn = "Thrown SyntaxError (lit ''Unexpected end of JSON input'')"
  let ?ex = "Thrown PlainError (lit ''yt-dlp exited 1: ERROR: x'')"
  let ?src = "ViaSpawn (?pre @ ProcClose (Some 1) # [])"
  let ?vid = "lit ''dQw4w9WgXcQ''"
  note thm1 = C6_malformed_metadata [of ?pre sample_runtime ?syn "[]" "Some 1" "[]"
      "ViaWrapper (WrapperResolved (JString []))" ?vid]
  note thm2 = C6_malformed_metadata [of ?pre sample_runtime ?ex "[]" "Some 1" "[]" ?src ?vid]
  have d: "list_all is_data ?pre" by simp
  have p: "JSON_parse sample_runtime (out_acc (fetch_run sample_runtime ?pre fresh_fetch)) = Inl ?syn"
    and p0: "JSON_parse sample_runtime [] = Inl ?syn"
    by (simp_all add: sample_runtime_def)
  have n: "Some (1::int) \<noteq> Some 0" by simp
  have msg: "lit ''yt-dlp exited '' @ show_code (Some 1) @ lit '': '' @
      last_lines (err_acc (fetch_run sample_runtime ?pre fresh_fetch)) = lit ''yt-dlp exited 1: ERROR: x''"
    by (simp add: fresh_fetch_def show_code_def show_nat.simps last_lines_def trim_def lit_def
        is_space_char_def)
  have det: "take 500 (String_of_error ?ex) = lit ''Error: yt-dlp exited 1: ERROR: x''"
    by (simp add: lit_def)
  from thm1 d p have c1: "ytDlpMetadata sample_runtime (ViaSpawn (?pre @ ProcClose (Some 0) # [])) =
      Some (Inl ?syn)"
    by blast
  from thm1 d n have "ytDlpMetadata sample_runtime ?src =
      Some (Inl (Thrown PlainError (lit ''yt-dlp exited '' @ show_code (Some 1) @ lit '': '' @
        last_lines (err_acc (fetch_run sample_runtime ?pre fresh_fetch)))))"
    by blast
  then have c2: "ytDlpMetadata sample_runtime ?src = Some (Inl ?ex)"
    by (simp only: msg)
  from thm1 p0 have c3: "ytDlpMetadata sample_runtime (ViaWrapper (WrapperResolved (JString []))) =
      Some (Inl ?syn)"
    by blast
  from thm2 c2 have "\<exists>s. download_request sample_runtime ?vid ?src = Some (None, s) \<and>
      ytProc s = None \<and> ff s = None \<and> ffmpegProc s = None \<and> statusCode (res s) = 500 \<and>
      jsonBody (res s) = Some (JObject [(lit ''error'', JString (lit ''Download failed'')),
        (lit ''details'', JString (take 500 (String_of_error ?ex)))])"
    by blast
  then have c4: "\<exists>s. download_request sample_runtime ?vid ?src = Some (None, s) \<and>
      ytProc s = None \<and> ff s = None \<and> ffmpegProc s = None \<and> statusCode (res s) = 500 \<and>
      jsonBody (res s) = Some (JObject [(lit ''error'', JString (lit ''Download failed'')),
        (lit ''details'', JString (lit ''Error: yt-dlp exited 1: ERROR: x''))])"
    by (simp only: det)
  from d p c1 n c2 p0 c3 c4 show ?thesis
    by (intro conjI)
qed

text \<open>
  A process that writes nothing and exits with status 1: the empty output is not JSON,
  and the fetch fails with the error of the exit status, not with the one of
  \<^verbatim>\<open>JSON.parse\<close>.
\<close>

theorem C6_exit_status_counterexample:
  "JSON_parse sample_runtime [] = Inl (Thrown SyntaxError (lit ''Unexpected end of JSON input'')) \<and>
   ytDlpMetadata sample_runtime (ViaSpawn [ProcClose (Some 1)]) =
     Some (Inl (Thrown PlainError (lit ''yt-dlp exited 1: '')))"
  by (simp add: sample_runtime_def fresh_fetch_def settle_def exit_error_def show_code_def
      show_nat.simps last_lines_def trim_def lit_def)

section \<open>The streaming session\<close>

text \<open>
  Claim C3.  In every session that the handler has started and any events have moved
  on, once the transcoder command exists there is an extraction process, and the
  \<^verbatim>\<open>error\<close> listener of the transcoder leaves no thrown value and calls
  \<^verbatim>\<open>kill()\<close> on that process, which sends it SIGTERM unless it has exited.  If the
  headers are not sent, the response gets status 500 and the JSON body
  \<^verbatim>\<open>{error: 'Conversion failed', details: String(err)}\<close>; if they are sent, the response
  is ended and its status and JSON body stay as they were.  With a response that has
  \<^verbatim>\<open>flushHeaders\<close> the headers are sent by then.
\<close>

theorem C3_transcoder_error:
  assumes "s = snd (run evs (snd (download_handler rt vid r)))" and "ff s \<noteq> None"
  shows "\<exists>c. ytProc s = Some c \<and>
           fst (step (FfError e t) s) = None \<and>
           ytProc (snd (step (FfError e t) s)) =
             Some (c\<lparr>killCalls := killCalls c @ [SIGTERM],
                      signalled := (if exited c then signalled c else signalled c @ [SIGTERM])\<rparr>) \<and>
           (\<not> headersSent (res s) \<longrightarrow>
              statusCode (res (snd (step (FfError e t) s))) = 500 \<and>
              jsonBody (res (snd (step (FfError e t) s))) =
                Some (JObject [(lit ''error'', JString (lit ''Conversion failed'')),
                               (lit ''details'', JString (String_of_error e))]) \<and>
              finished (res (snd (step (FfError e t) s)))) \<and>
           (headersSent (res s) \<longrightarrow>
              jsonBody (res (snd (step (FfError e t) s))) = jsonBody (res s) \<and>
              statusCode (res (snd (step (FfError e t) s))) = statusCode (res s) \<and>
              finished (res (snd (step (FfError e t) s)))) \<and>
           (flushHeaders_defined rt \<longrightarrow> headersSent (res s))"
proof -
  from session_listeners [OF assms(1)] assms(2) obtain c where c: "ytProc s = Some c"
    by auto
  from assms(2) have "step (FfError e t) s = on_ffmpeg_error e t s"
    by auto
  moreover from session_headers [OF assms(1)] assms(2)
  have "flushHeaders_defined rt \<longrightarrow> headersSent (res s)"
    by simp
  ultimately show ?thesis
    using c by (simp add: on_ffmpeg_error_eq child_kill_def conversion_body_def)
qed

text \<open>
  The sample session, with its headers flushed, and the session of a runtime whose
  response has no \<^verbatim>\<open>flushHeaders\<close> (the source calls it as
  \<^verbatim>\<open>res.flushHeaders?.()\<close>), with its headers not sent.
\<close>

theorem C3_transcoder_error_witness:
  "ff sample_session \<noteq> None \<and>
   headersSent (res sample_session) \<and>
   flushHeaders_defined sample_runtime \<and>
   map_option signalled (ytProc sample_session) = Some [] \<and>
   map_option signalled (ytProc (snd (step (FfError (Thrown PlainError (lit ''ffmpeg exited with code 1'')) []) sample_session))) = Some [SIGTERM] \<and>
   map_option killCalls (ytProc (snd (step (FfError (Thrown PlainError (lit ''ffmpeg exited with code 1'')) []) sample_session))) = Some [SIGTERM] \<and>
   statusCode (res (snd (step (FfError (Thrown PlainError (lit ''ffmpeg exited with code 1'')) []) sample_session))) = 200 \<and>
   jsonBody (res (snd (step (FfError (Thrown PlainError (lit ''ffmpeg exited with code 1'')) []) sample_session))) = None \<and>
   finished (res (snd (step (FfError (Thrown PlainError (lit ''ffmpeg exited with code 1'')) []) sample_session))) \<and>
   ff (snd (download_handler (sample_runtime\<lparr>flushHeaders_defined := False\<rparr>) (lit ''dQw4w9WgXcQ'') (Inr (JObject [])))) \<noteq> None \<and>
   \<not> headersSent (res (snd (download_handler (sample_runtime\<lparr>flushHeaders_defined := False\<rparr>) (lit ''dQw4w9WgXcQ'') (Inr (JObject []))))) \<and>
   statusCode (res (snd (step (FfError (Thrown PlainError (lit ''ffmpeg exited with code 1'')) [])
      (snd (download_handler (sample_runtime\<lparr>flushHeaders_defined := False\<rparr>) (lit ''dQw4w9WgXcQ'') (Inr (JObject []))))))) = 500 \<and>
   jsonBody (res (snd (step (FfError (Thrown PlainError (lit ''ffmpeg exited with code 1'')) [])
      (snd (download_handler (sample_runtime\<lparr>flushHeaders_defined := False\<rparr>) (lit ''dQw4w9WgXcQ'') (Inr (JObject []))))))) =
     Some (JObject [(lit ''error'', JString (lit ''Conversion failed'')),
                    (lit ''details'', JString (lit ''Error: ffmpeg exited with code 1''))])"
proof -
  let ?s2 = "snd (download_handler (sample_runtime\<lparr>flushHeaders_defined := False\<rparr>) (lit ''dQw4w9WgXcQ'') (Inr (JObject [])))"
  let ?e = "Thrown PlainError (lit ''ffmpeg exited with code 1'')"
  have a: "ff sample_session \<noteq> None" and h: "headersSent (res sample_session)"
    and k: "map_option signalled (ytProc sample_session) = Some []"
      "map_option killCalls (ytProc sample_session) = Some []"
      "map_option exited (ytProc sample_session) = Some False"
      "statusCode (res sample_session) = 200" "jsonBody (res sample_session) = None"
    and f: "flushHeaders_defined sample_runtime"
    by (simp_all add: sample_session_eq sample_runtime_def)
  have r2: "?s2 = snd (run [] ?s2)" by simp
  have a2: "ff ?s2 \<noteq> None" and h2: "\<not> headersSent (res ?s2)"
    by (simp_all add: eval_defs stmt_defs)
  have str: "String_of_error ?e = lit ''Error: ffmpeg exited with code 1''"
    by (simp add: lit_def)
  from C3_transcoder_error [OF sample_session_reached a, of ?e "[]"]
    C3_transcoder_error [OF r2 a2, of ?e "[]"]
    a h k f a2 h2 str
  show ?thesis
    by auto
qed

text \<open>
  Claim C2, at a client that disconnects while the sample session streams: the
  \<^verbatim>\<open>close\<close> event fires with \<^verbatim>\<open>req.aborted\<close> true.  The listener leaves no thrown
  value, sends SIGKILL to the extraction process and does not touch the response.  The
  transcoder is running and gets no \<^verbatim>\<open>kill\<close>: \<^verbatim>\<open>ffmpegProc\<close> is what
  \<^verbatim>\<open>ff.pipe(res, { end: true })\<close> returned, the response stream, which has no
  \<^verbatim>\<open>kill\<close> method, so \<^verbatim>\<open>ffmpegProc.kill && ffmpegProc.kill('SIGKILL')\<close> stops at
  its test.
\<close>

theorem C2_disconnect_spares_transcoder:
  "closeListener sample_session \<and> \<not> finished (res sample_session) \<and>
   ffmpegProc sample_session = Some WithoutKill \<and>
   map_option running (ff sample_session) = Some True \<and>
   fst (step (ReqClose True) sample_session) = None \<and>
   map_option killCalls (ytProc (snd (step (ReqClose True) sample_session))) = Some [SIGKILL] \<and>
   map_option signalled (ytProc (snd (step (ReqClose True) sample_session))) = Some [SIGKILL] \<and>
   map_option ffKillCalls (ff (snd (step (ReqClose True) sample_session))) = Some [] \<and>
   res (snd (step (ReqClose True) sample_session)) = res sample_session"
  by (simp add: sample_session_eq on_req_close_def stmt_defs)

text \<open>
  Claim C4, as the code has it.  No sequence of events leaves a thrown value, and
  neither does the handler: every \<^verbatim>\<open>kill\<close> is inside \<^verbatim>\<open>try\<close>, and the JSON error is
  written only while the headers are not sent.  An extraction process that has exited is
  sent no signal by any later event.  In a session of the handler, a finished response
  is changed by no later event.  But the session has no flag for a terminal state: in
  every streaming session, when the transcoder's \<^verbatim>\<open>error\<close> listener has run and the
  \<^verbatim>\<open>close\<close> event follows, \<^verbatim>\<open>kill\<close> is called on the extraction process twice,
  and a process that has not exited is sent SIGTERM and then SIGKILL.
\<close>

theorem C4_termination_paths:
  "fst (run evs s) = None \<and>
   fst (download_handler rt vid r) = None \<and>
   (ytProc s = Some c \<and> exited c \<longrightarrow>
      (\<exists>c'. ytProc (snd (run evs s)) = Some c' \<and> exited c' \<and> signalled c' = signalled c)) \<and>
   (s = snd (run evs' (snd (download_handler rt vid r))) \<and> finished (res s) \<longrightarrow>
      res (snd (run evs s)) = res s) \<and>
   (s = snd (run evs' (snd (download_handler rt vid r))) \<and> closeListener s \<longrightarrow>
      (\<exists>k. ytProc s = Some k \<and>
           ytProc (snd (run [FfError e t, ReqClose aborted] s)) =
             Some (k\<lparr>killCalls := killCalls k @ [SIGTERM, SIGKILL],
                      signalled := (if exited k then signalled k
                                    else signalled k @ [SIGTERM, SIGKILL])\<rparr>)))"
proof (intro conjI impI)
  show "fst (run evs s) = None" by (rule run_no_throw)
  show "fst (download_handler rt vid r) = None" by (rule handler_no_throw)
next
  assume "ytProc s = Some c \<and> exited c"
  then show "\<exists>c'. ytProc (snd (run evs s)) = Some c' \<and> exited c' \<and> signalled c' = signalled c"
    using run_exited by blast
next
  assume a: "s = snd (run evs' (snd (download_handler rt vid r))) \<and> finished (res s)"
  then have "headersSent (res s)"
    using session_headers by blast
  with a show "res (snd (run evs s)) = res s"
    using run_finished by blast
next
  assume "s = snd (run evs' (snd (download_handler rt vid r))) \<and> closeListener s"
  then have inv: "(ytProc s = None \<longleftrightarrow> ff s = None) \<and> (ff s = None \<longleftrightarrow> \<not> closeListener s)"
    and a: "closeListener s"
    using session_listeners by blast+
  then obtain k where k: "ytProc s = Some k" and f: "ff s \<noteq> None"
    by auto
  let ?s1 = "snd (on_ffmpeg_error e t s)"
  have y1: "ytProc ?s1 = Some (child_kill SIGTERM k)"
    and f1: "finished (res ?s1)" and c1: "closeListener ?s1"
    using a k by (simp_all add: on_ffmpeg_error_eq)
  from f have st: "snd (step (FfError e t) s) = ?s1"
    by auto
  have "snd (run [FfError e t, ReqClose aborted] s) = snd (step (ReqClose aborted) ?s1)"
    by (simp only: run_Cons st run.simps snd_conv)
  with c1 have "snd (run [FfError e t, ReqClose aborted] s) = snd (on_req_close aborted ?s1)"
    by simp
  then have "ytProc (snd (run [FfError e t, ReqClose aborted] s)) =
      Some (child_kill SIGKILL (child_kill SIGTERM k))"
    using f1 by (simp add: on_req_close_eq [OF y1])
  with k show "\<exists>k. ytProc s = Some k \<and>
           ytProc (snd (run [FfError e t, ReqClose aborted] s)) =
             Some (k\<lparr>killCalls := killCalls k @ [SIGTERM, SIGKILL],
                      signalled := (if exited k then signalled k
                                    else signalled k @ [SIGTERM, SIGKILL])\<rparr>)"
    by (simp add: child_kill_def)
qed

text \<open>
  The sample session: an error of the transcoder and then the \<^verbatim>\<open>close\<close> event, on
  the running process, on the process after its exit, and after the response has
  finished.
\<close>

theorem C4_termination_paths_witness:
  "closeListener sample_session \<and>
   map_option exited (ytProc sample_session) = Some False \<and>
   fst (run [FfError (Thrown PlainError (lit ''ffmpeg exited with code 1'')) [], ReqClose True,
             ReqClose True, YtProcClose None] sample_session) = None \<and>
   map_option signalled (ytProc (snd (run [FfError (Thrown PlainError (lit ''ffmpeg exited with code 1'')) [],
             ReqClose True] sample_session))) = Some [SIGTERM, SIGKILL] \<and>
   map_option exited (ytProc (snd (run [YtProcExit] sample_session))) = Some True \<and>
   map_option signalled (ytProc (snd (run [YtProcExit] sample_session))) = Some [] \<and>
   map_option signalled (ytProc (snd (run [FfError (Thrown PlainError (lit ''ffmpeg exited with code 1'')) [],
             ReqClose True] (snd (run [YtProcExit] sample_session))))) = Some [] \<and>
   map_option killCalls (ytProc (snd (run [FfError (Thrown PlainError (lit ''ffmpeg exited with code 1'')) [],
             ReqClose True] (snd (run [YtProcExit] sample_session))))) = Some [SIGTERM, SIGKILL] \<and>
   finished (res (snd (run [ResFinish] sample_session))) \<and>
   res (snd (run [FfError (Thrown PlainError (lit ''ffmpeg exited with code 1'')) [], ReqClose True]
          (snd (run [ResFinish] sample_session)))) = res (snd (run [ResFinish] sample_session))"
proof -
  let ?e = "Thrown PlainError (lit ''ffmpeg exited with code 1'')"
  let ?c = "\<lparr>command = lit ''yt-dlp'',
         args = [lit ''-f'', lit ''bestaudio'', lit ''-o'', lit ''-'', lit ''--no-playlist'',
                 lit ''https://www.youtube.com/watch?v=dQw4w9WgXcQ''],
         killCalls = [], exited = False, signalled = []\<rparr>"
  let ?sx = "snd (run [YtProcExit] sample_session)"
  let ?sf = "snd (run [ResFinish] sample_session)"
  have a: "closeListener sample_session" and y: "ytProc sample_session = Some ?c"
    by (simp_all add: sample_session_eq)
  have x: "ytProc ?sx = Some (?c\<lparr>exited := True\<rparr>)" and xc: "closeListener ?sx"
    by (simp_all add: sample_session_eq stmt_defs)
  have rx: "?sx = snd (run [YtProcExit] (snd (download_handler sample_runtime (lit ''dQw4w9WgXcQ'') (Inr (JObject [])))))"
    and rf: "?sf = snd (run [ResFinish] (snd (download_handler sample_runtime (lit ''dQw4w9WgXcQ'') (Inr (JObject [])))))"
    by (simp_all only: sample_session_def)
  have fin: "finished (res ?sf)"
    by (simp add: sample_session_eq stmt_defs)
  from C4_termination_paths [where evs = "[FfError ?e [], ReqClose True, ReqClose True, YtProcClose None]"
      and s = sample_session and evs' = "[]" and rt = sample_runtime and vid = "lit ''dQw4w9WgXcQ''"
      and r = "Inr (JObject [])" and e = ?e and t = "[]" and aborted = True and c = ?c]
    C4_termination_paths [where evs = "[FfError ?e [], ReqClose True]"
      and s = ?sx and evs' = "[YtProcExit]" and rt = sample_runtime and vid = "lit ''dQw4w9WgXcQ''"
      and r = "Inr (JObject [])" and e = ?e and t = "[]" and aborted = True and c = "?c\<lparr>exited := True\<rparr>"]
    C4_termination_paths [where evs = "[FfError ?e [], ReqClose True]"
      and s = ?sf and evs' = "[ResFinish]" and rt = sample_runtime and vid = "lit ''dQw4w9WgXcQ''"
      and r = "Inr (JObject [])" and e = ?e and t = "[]" and aborted = True and c = ?c]
    sample_session_reached a y x xc rx rf fin
  show ?thesis
    by (auto simp del: run.simps step.simps)
qed

text \<open>
  On the sample session the transcoder fails and the \<^verbatim>\<open>close\<close> event of the request
  follows, while the extraction process is still running.  The error path ends the
  response and sends SIGTERM; the disconnect path then takes effect too: it logs and
  sends SIGKILL to the same process.
\<close>

theorem C4_two_terminations_counterexample:
  "map_option exited (ytProc sample_session) = Some False \<and>
   map_option signalled (ytProc (snd (run
      [FfError (Thrown PlainError (lit ''ffmpeg exited with code 1'')) []] sample_session))) =
     Some [SIGTERM] \<and>
   finished (res (snd (run
      [FfError (Thrown PlainError (lit ''ffmpeg exited with code 1'')) []] sample_session))) \<and>
   map_option exited (ytProc (snd (run
      [FfError (Thrown PlainError (lit ''ffmpeg exited with code 1'')) [], ReqClose False]
      sample_session))) = Some False \<and>
   map_option signalled (ytProc (snd (run
      [FfError (Thrown PlainError (lit ''ffmpeg exited with code 1'')) [], ReqClose False]
      sample_session))) = Some [SIGTERM, SIGKILL] \<and>
   console (snd (run
      [FfError (Thrown PlainError (lit ''ffmpeg exited with code 1'')) [], ReqClose False]
      sample_session)) =
     [LogFfmpegError (Thrown PlainError (lit ''ffmpeg exited with code 1'')), LogFfmpegStderr [],
      LogClientDisconnected]"
  by (simp add: sample_session_eq on_ffmpeg_error_def on_req_close_def stmt_defs)

section \<open>The JSON error bodies\<close>

text \<open>
  Claim C8, as the code has it.  The error bodies of the search, video and download
  handlers and of the transcoder's \<^verbatim>\<open>error\<close> listener have the shape
  \<^verbatim>\<open>{error: string, details?: string}\<close>.  The body of the last error handler is
  \<^verbatim>\<open>{error: 'Internal server error'}\<close>, with a \<^verbatim>\<open>message\<close> string added when
  \<^verbatim>\<open>NODE_ENV\<close> is \<^verbatim>\<open>development\<close>; outside of that mode it has the shape too.
\<close>

theorem C8_error_bodies:
  "(400 \<le> statusCode (snd (search_handler query outcome fresh_response)) \<longrightarrow>
      (\<exists>b. jsonBody (snd (search_handler query outcome fresh_response)) = Some b \<and> error_shape b)) \<and>
   (400 \<le> statusCode (snd (video_handler info fresh_response)) \<longrightarrow>
      (\<exists>b. jsonBody (snd (video_handler info fresh_response)) = Some b \<and> error_shape b)) \<and>
   (jsonBody (res (snd (download_handler rt vid r))) = Some b \<longrightarrow> error_shape b) \<and>
   (ff s \<noteq> None \<and> jsonBody (res s) = None \<and>
    jsonBody (res (snd (step (FfError e t) s))) = Some b' \<longrightarrow> error_shape b') \<and>
   jsonBody (snd (generic_error_handler rt err fresh_response)) =
     Some (JObject ((lit ''error'', JString (lit ''Internal server error'')) #
        (if NODE_ENV rt = Some (lit ''development'')
         then [(lit ''message'', JString (String_of_error err))] else []))) \<and>
   (NODE_ENV rt \<noteq> Some (lit ''development'') \<longrightarrow>
      (\<exists>b. jsonBody (snd (generic_error_handler rt err fresh_response)) = Some b \<and> error_shape b))"
proof (intro conjI impI)
  assume "400 \<le> statusCode (snd (search_handler query outcome fresh_response))"
  then show "\<exists>b. jsonBody (snd (search_handler query outcome fresh_response)) = Some b \<and> error_shape b"
    by (rule search_body_shape)
next
  assume "400 \<le> statusCode (snd (video_handler info fresh_response))"
  then show "\<exists>b. jsonBody (snd (video_handler info fresh_response)) = Some b \<and> error_shape b"
    by (rule video_body_shape)
next
  assume "jsonBody (res (snd (download_handler rt vid r))) = Some b"
  then show "error_shape b" by (rule handler_body_shape)
next
  assume a: "ff s \<noteq> None \<and> jsonBody (res s) = None \<and>
    jsonBody (res (snd (step (FfError e t) s))) = Some b'"
  then have "step (FfError e t) s = on_ffmpeg_error e t s" by auto
  with a have "b' = conversion_body e"
    by (auto simp: on_ffmpeg_error_def stmt_defs conversion_body_def
        split: option.splits if_splits)
  then show "error_shape b'" by (simp add: shape_conversion)
next
  show "jsonBody (snd (generic_error_handler rt err fresh_response)) =
     Some (JObject ((lit ''error'', JString (lit ''Internal server error'')) #
        (if NODE_ENV rt = Some (lit ''development'')
         then [(lit ''message'', JString (String_of_error err))] else [])))"
    by (rule generic_body)
next
  assume "NODE_ENV rt \<noteq> Some (lit ''development'')"
  then show "\<exists>b. jsonBody (snd (generic_error_handler rt err fresh_response)) = Some b \<and> error_shape b"
    by (simp add: generic_body)
qed

text \<open>
  One error answer of each handler.
\<close>

theorem C8_error_bodies_witness:
  "400 \<le> statusCode (snd (search_handler JUndefined (Inr (JArray [])) fresh_response)) \<and>
   jsonBody (snd (search_handler JUndefined (Inr (JArray [])) fresh_response)) =
     Some (JObject [(lit ''error'', JString (lit ''Query parameter is required''))]) \<and>
   400 \<le> statusCode (snd (video_handler (Inl (Thrown PlainError (lit ''yt-dlp not found on PATH''))) fresh_response)) \<and>
   jsonBody (res (snd (download_handler sample_runtime (lit ''dQw4w9WgXcQ'') (Inl (Thrown PlainError (lit ''yt-dlp not found on PATH''))))))
     = Some (failed_body (Thrown PlainError (lit ''yt-dlp not found on PATH''))) \<and>
   error_shape (failed_body (Thrown PlainError (lit ''yt-dlp not found on PATH''))) \<and>
   ff (sample_session\<lparr>res := fresh_response\<rparr>) \<noteq> None \<and>
   jsonBody (res (snd (step (FfError (Thrown PlainError (lit ''ffmpeg exited with code 1'')) [])
      (sample_session\<lparr>res := fresh_response\<rparr>)))) =
     Some (conversion_body (Thrown PlainError (lit ''ffmpeg exited with code 1''))) \<and>
   error_shape (conversion_body (Thrown PlainError (lit ''ffmpeg exited with code 1''))) \<and>
   NODE_ENV sample_runtime \<noteq> Some (lit ''development'') \<and>
   jsonBody (snd (generic_error_handler sample_runtime (Thrown PlainError (lit ''boom'')) fresh_response)) =
     Some (JObject [(lit ''error'', JString (lit ''Internal server error''))])"
proof -
  have ff: "ff (sample_session\<lparr>res := fresh_response\<rparr>) \<noteq> None"
    and yt: "ytProc (sample_session\<lparr>res := fresh_response\<rparr>) \<noteq> None"
    using start_stream_fresh [of sample_runtime]
    by (auto simp: sample_session_def eval_defs stmt_defs)
  have body: "jsonBody (res (snd (step (FfError (Thrown PlainError (lit ''ffmpeg exited with code 1'')) [])
      (sample_session\<lparr>res := fresh_response\<rparr>)))) =
     Some (conversion_body (Thrown PlainError (lit ''ffmpeg exited with code 1'')))"
    using ff yt
    by (auto simp: on_ffmpeg_error_def stmt_defs fresh_response_def conversion_body_def)
  have dl: "jsonBody (res (snd (download_handler sample_runtime (lit ''dQw4w9WgXcQ'') (Inl (Thrown PlainError (lit ''yt-dlp not found on PATH''))))))
     = Some (failed_body (Thrown PlainError (lit ''yt-dlp not found on PATH'')))"
    by (simp add: download_handler_def catch_fresh)
  have env: "NODE_ENV sample_runtime \<noteq> Some (lit ''development'')"
    by (simp add: sample_runtime_def)
  have search: "400 \<le> statusCode (snd (search_handler JUndefined (Inr (JArray [])) fresh_response))"
    "jsonBody (snd (search_handler JUndefined (Inr (JArray [])) fresh_response)) =
     Some (JObject [(lit ''error'', JString (lit ''Query parameter is required''))])"
    by (simp_all add: search_handler_def stmt_defs fresh_response_def)
  have video: "400 \<le> statusCode (snd (video_handler (Inl (Thrown PlainError (lit ''yt-dlp not found on PATH''))) fresh_response))"
    by (simp add: video_handler_def stmt_defs fresh_response_def)
  from C8_error_bodies [where query = JUndefined and outcome = "Inr (JArray [])"
      and info = "Inl (Thrown PlainError (lit ''yt-dlp not found on PATH''))"
      and rt = sample_runtime and vid = "lit ''dQw4w9WgXcQ''"
      and r = "Inl (Thrown PlainError (lit ''yt-dlp not found on PATH''))"
      and b = "failed_body (Thrown PlainError (lit ''yt-dlp not found on PATH''))"
      and s = "sample_session\<lparr>res := fresh_response\<rparr>"
      and e = "Thrown PlainError (lit ''ffmpeg exited with code 1'')" and t = "[]"
      and b' = "conversion_body (Thrown PlainError (lit ''ffmpeg exited with code 1''))"
      and err = "Thrown PlainError (lit ''boom'')"]
    ff body dl env search video
  show ?thesis
    by (simp add: fresh_response_def)
qed

text \<open>
  In development mode the body of the last error handler has a \<^verbatim>\<open>message\<close> field.
\<close>

theorem C8_development_message_counterexample:
  "jsonBody (snd (generic_error_handler (sample_runtime\<lparr>NODE_ENV := Some (lit ''development'')\<rparr>)
      (Thrown SyntaxError (lit ''Unexpected token'')) fresh_response)) =
     Some (JObject [(lit ''error'', JString (lit ''Internal server error'')),
                    (lit ''message'', JString (lit ''SyntaxError: Unexpected token''))]) \<and>
   \<not> error_shape (JObject [(lit ''error'', JString (lit ''Internal server error'')),
                    (lit ''message'', JString (lit ''SyntaxError: Unexpected token''))])"
  by (simp add: generic_body sample_runtime_def) (simp add: lit_def)

end
